theory Spec2Isabelle
  imports Complex_Main
begin

section \<open>Values of the platform\<close>

text \<open>
  The gateway exists twice in the repository: the flat worker of
  \<^verbatim>\<open>src/worker/src/index.ts\<close> (\<open>handleRequest\<close> and the exported \<open>fetch\<close>) and the
  resource-nested Hono application of \<^verbatim>\<open>src/unnamed/part_000\<close> (\<open>app\<close>). Both are
  embedded here, each from its own source text.

  A string is the UTF-8 encoding of a JavaScript string: a character beyond ASCII is
  several \<open>char\<close>s. The handlers compare strings, split a path at \<open>/\<close> and read
  decimal digits, which is the same on either form.

  A JavaScript number is an IEEE double. \<open>Num q\<close> is the finite double of value \<open>q\<close>
  other than negative zero (\<open>Num 0\<close> is \<open>+0\<close>), \<open>NegZero\<close> is \<open>-0\<close> and \<open>NaN\<close> is
  not-a-number. \<open>Rounded n\<close>, for an integer \<open>n\<close> beyond \<open>2 ^ 53\<close> in magnitude, is the
  Number value the language gives for \<open>n\<close>: the double that approximates \<open>n\<close>, an
  infinity when \<open>n\<close> is out of range. Which double that is, is not said here.
\<close>

datatype number = Num rat | NegZero | NaN | Rounded int

definition isNaN :: "number \<Rightarrow> bool" where
  "isNaN n = (n = NaN)"

text \<open>
  A value produced by \<open>JSON.parse\<close>. An object is the list of its own properties;
  reading a property takes the first entry with that name.
\<close>

datatype jsval =
    JNull
  | JBool bool
  | JNum number
  | JStr string
  | JArr "jsval list"
  | JObj "(string \<times> jsval) list"

text \<open>
  The body of a response: \<open>Response.json\<close> and Hono's \<open>c.json\<close> build a \<open>JsonBody\<close>,
  \<open>new Response(text, ...)\<close> a \<open>TextBody\<close>, \<open>new Response(object.body, ...)\<close> a
  \<open>RawBody\<close>, and a \<open>null\<close> body is \<open>NoBody\<close>. The constructor stands for the
  Content-Type as well; \<open>headers\<close> holds only the headers the code sets explicitly.
\<close>

datatype resp_body = JsonBody jsval | TextBody string | RawBody string | NoBody

record response =
  status :: nat
  headers :: "(string \<times> string) list"
  body :: resp_body

definition Response_json :: "jsval \<Rightarrow> nat \<Rightarrow> response" where
  "Response_json v st = \<lparr>status = st, headers = [], body = JsonBody v\<rparr>"

definition Response_text :: "string \<Rightarrow> nat \<Rightarrow> response" where
  "Response_text t st = \<lparr>status = st, headers = [], body = TextBody t\<rparr>"

text \<open>The object literal \<open>{ error: msg }\<close>.\<close>

definition error_obj :: "string \<Rightarrow> jsval" where
  "error_obj msg = JObj [(''error'', JStr msg)]"

text \<open>
  What a \<open>throw\<close> carries: a \<open>Response\<close> (the flat worker throws responses), a Hono
  \<open>HTTPException\<close> with its status and message, or any other error (a \<open>TypeError\<close>, a
  \<open>SyntaxError\<close> of the JSON parser, a rejection of the backing store), kept by name.
\<close>

datatype thrown =
    ThrownResponse response
  | HTTPException nat string
  | Error string

text \<open>
  A request, as the handlers read it: the method, the path and the query pairs of its
  parsed URL (\<open>searchParams.get\<close> and \<open>c.req.query\<close> return the first value of a name),
  the Authorization header (\<open>None\<close> when \<open>headers.get\<close> returns \<open>null\<close>), the body
  (\<open>None\<close> when it is \<open>null\<close>) and the outcome of \<open>await request.json()\<close> (\<open>None\<close> when
  that promise rejects: no body, or text that is not JSON).
\<close>

record request =
  req_method :: string
  req_pathname :: string
  req_searchParams :: "(string \<times> string) list"
  req_Authorization :: "string option"
  req_body :: "string option"
  req_json :: "jsval option"

section \<open>The backing store\<close>

record R2MultipartUpload =
  mpu_key :: string
  mpu_uploadId :: string

record R2UploadedPart =
  part_partNumber :: number
  part_etag :: string

record R2Object =
  obj_key :: string
  obj_size :: number
  obj_etag :: string
  obj_httpMetadata :: "(string \<times> string) list"

record R2ObjectBody = R2Object +
  obj_body :: string

text \<open>
  The bucket binding answers each operation with \<open>Inr\<close> of its result or \<open>Inl\<close> of the
  error its promise rejects with. \<open>resumeMultipartUpload\<close> makes a local handle and is
  not part of the answers.
\<close>

record R2Bucket =
  createMultipartUpload :: "string \<Rightarrow> string + R2MultipartUpload"
  uploadPart :: "R2MultipartUpload \<Rightarrow> number \<Rightarrow> string \<Rightarrow> string + R2UploadedPart"
  complete :: "R2MultipartUpload \<Rightarrow> jsval list \<Rightarrow> string + unit"
  get :: "string \<Rightarrow> string + R2ObjectBody option"
  head :: "string \<Rightarrow> string + R2Object option"
  list_objects :: "string option \<Rightarrow> nat \<Rightarrow> string + R2Object list"
  delete :: "string \<Rightarrow> string + unit"

record Env =
  BUCKET :: "R2Bucket option"
  AUTH_KEY :: "string option"

text \<open>The calls a handler makes on the bucket, in the order it makes them.\<close>

datatype call =
    CreateMultipartUpload string
  | ResumeMultipartUpload string string
  | UploadPart R2MultipartUpload number string
  | Complete R2MultipartUpload "jsval list"
  | Get string
  | Head string
  | ListObjects "string option" nat
  | Delete string

text \<open>
  A step that may throw and that records its calls. Reading a method of an absent
  binding (\<open>env.BUCKET\<close> undefined) throws a \<open>TypeError\<close> before any call is made.
\<close>

type_synonym 'a io = "(thrown + 'a) \<times> call list"

definition rejected :: "string + 'a \<Rightarrow> thrown + 'a" where
  "rejected r = (case r of Inl e \<Rightarrow> Inl (Error e) | Inr v \<Rightarrow> Inr v)"

definition with_bucket :: "Env \<Rightarrow> (R2Bucket \<Rightarrow> 'a io) \<Rightarrow> 'a io" where
  "with_bucket env f =
     (case BUCKET env of None \<Rightarrow> (Inl (Error ''TypeError''), []) | Some b \<Rightarrow> f b)"

definition resumeMultipartUpload :: "string \<Rightarrow> string \<Rightarrow> R2MultipartUpload" where
  "resumeMultipartUpload k u = \<lparr>mpu_key = k, mpu_uploadId = u\<rparr>"

section \<open>Builtins of the language\<close>

text \<open>
  \<open>String.prototype.split\<close> with a one-character separator: the pieces between the
  separators, so the empty string gives one empty piece.
\<close>

fun split :: "char \<Rightarrow> string \<Rightarrow> string list" where
  "split c [] = [[]]"
| "split c (x # xs) =
     (if x = c then [] # split c xs
      else (let r = split c xs in (x # hd r) # tl r))"

text \<open>\<open>Array.prototype.at\<close> for a non-negative index: \<open>None\<close> is \<open>undefined\<close>.\<close>

definition at_idx :: "'a list \<Rightarrow> nat \<Rightarrow> 'a option" where
  "at_idx xs i = (if i < length xs then Some (xs ! i) else None)"

text \<open>
  The white space and the line terminators of the language, each in UTF-8: TAB, LF,
  VT, FF, CR, SP, U+00A0, U+1680, U+2000 to U+200A, U+2028, U+2029, U+202F, U+205F,
  U+3000 and U+FEFF.
\<close>

definition white_space_chars :: "string list" where
  "white_space_chars =
     [[CHR 0x09], [CHR 0x0A], [CHR 0x0B], [CHR 0x0C], [CHR 0x0D], [CHR 0x20],
      [CHR 0xC2, CHR 0xA0],
      [CHR 0xE1, CHR 0x9A, CHR 0x80],
      [CHR 0xE2, CHR 0x80, CHR 0x80], [CHR 0xE2, CHR 0x80, CHR 0x81],
      [CHR 0xE2, CHR 0x80, CHR 0x82], [CHR 0xE2, CHR 0x80, CHR 0x83],
      [CHR 0xE2, CHR 0x80, CHR 0x84], [CHR 0xE2, CHR 0x80, CHR 0x85],
      [CHR 0xE2, CHR 0x80, CHR 0x86], [CHR 0xE2, CHR 0x80, CHR 0x87],
      [CHR 0xE2, CHR 0x80, CHR 0x88], [CHR 0xE2, CHR 0x80, CHR 0x89],
      [CHR 0xE2, CHR 0x80, CHR 0x8A],
      [CHR 0xE2, CHR 0x80, CHR 0xA8], [CHR 0xE2, CHR 0x80, CHR 0xA9],
      [CHR 0xE2, CHR 0x80, CHR 0xAF],
      [CHR 0xE2, CHR 0x81, CHR 0x9F],
      [CHR 0xE3, CHR 0x80, CHR 0x80],
      [CHR 0xEF, CHR 0xBB, CHR 0xBF]]"

text \<open>
  The length of the white space character a string starts with, 0 when it starts with
  none; \<open>trim_start\<close> is \<open>TrimString(string, start)\<close>, which drops them all.
\<close>

definition white_len :: "string \<Rightarrow> nat" where
  "white_len s =
     (case find (\<lambda>w. take (length w) s = w) white_space_chars of
        None \<Rightarrow> 0
      | Some w \<Rightarrow> length w)"

function trim_start :: "string \<Rightarrow> string" where
  "trim_start s = (if white_len s = 0 then s else trim_start (drop (white_len s) s))"
  by pat_completeness auto
termination
proof (relation "measure length")
  show "wf (measure length)" by simp
next
  fix s :: string
  assume "white_len s \<noteq> 0"
  moreover have "white_len [] = 0"
    by (simp add: white_len_def white_space_chars_def)
  ultimately have "s \<noteq> []" by auto
  with \<open>white_len s \<noteq> 0\<close> show "(drop (white_len s) s, s) \<in> measure length"
    by simp
qed

declare trim_start.simps [simp del]

text \<open>
  \<open>parseInt(value, 10)\<close>: leading white space is dropped, one sign is read, then the
  longest run of decimal digits; what follows the run is ignored, and an empty run
  gives \<open>NaN\<close>. \<open>to_Number sign mathInt\<close> is the result for the run of value \<open>mathInt\<close>:
  a zero keeps the sign, an integer up to \<open>2 ^ 53\<close> is exact, a larger one is rounded.
\<close>

definition is_digit :: "char \<Rightarrow> bool" where
  "is_digit c = (c \<in> set ''0123456789'')"

definition digit_val :: "char \<Rightarrow> int" where
  "digit_val c = int (of_char c) - 48"

definition digits_val :: "string \<Rightarrow> int" where
  "digits_val ds = foldl (\<lambda>acc d. 10 * acc + digit_val d) 0 ds"

definition to_Number :: "int \<Rightarrow> int \<Rightarrow> number" where
  "to_Number sign mathInt =
     (if mathInt = 0 then (if sign = - 1 then NegZero else Num 0)
      else if mathInt \<le> 2 ^ 53 then Num (of_int (sign * mathInt))
      else Rounded (sign * mathInt))"

definition parseInt :: "string \<Rightarrow> number" where
  "parseInt inputString =
     (let S = trim_start inputString;
          sign = (if S \<noteq> [] \<and> hd S = CHR ''-'' then - 1 else 1 :: int);
          S' = (if S \<noteq> [] \<and> (hd S = CHR ''+'' \<or> hd S = CHR ''-'') then tl S else S);
          Z = takeWhile is_digit S'
      in if Z = [] then NaN else to_Number sign (digits_val Z))"

text \<open>
  Reading a property: \<open>null.p\<close> throws a \<open>TypeError\<close>; an object gives its own property
  or \<open>undefined\<close> (\<open>None\<close>); the other values have no own property of the names the
  handlers read (\<open>partNumber\<close>, \<open>etag\<close>).
\<close>

fun get_prop :: "jsval \<Rightarrow> string \<Rightarrow> thrown + jsval option" where
  "get_prop JNull name = Inl (Error ''TypeError'')"
| "get_prop (JObj kvs) name = Inr (map_of kvs name)"
| "get_prop v name = Inr None"

fun typeof :: "jsval option \<Rightarrow> string" where
  "typeof None = ''undefined''"
| "typeof (Some JNull) = ''object''"
| "typeof (Some (JBool b)) = ''boolean''"
| "typeof (Some (JNum n)) = ''number''"
| "typeof (Some (JStr s)) = ''string''"
| "typeof (Some (JArr xs)) = ''object''"
| "typeof (Some (JObj kvs)) = ''object''"

text \<open>
  \<open>Array.prototype.every\<close> with a callback that may throw: it stops at the first
  element whose test is false, and a throw of the callback leaves it at once.
\<close>

fun every :: "('a \<Rightarrow> thrown + bool) \<Rightarrow> 'a list \<Rightarrow> thrown + bool" where
  "every p [] = Inr True"
| "every p (x # xs) =
     (case p x of
        Inl e \<Rightarrow> Inl e
      | Inr ok \<Rightarrow> if ok then every p xs else Inr False)"

text \<open>
  The callback both handlers give to \<open>every\<close>:
  \<open>typeof part.partNumber === 'number' && typeof part.etag === 'string'\<close>.
\<close>

definition part_check :: "jsval \<Rightarrow> thrown + bool" where
  "part_check part =
     (case get_prop part ''partNumber'' of
        Inl e \<Rightarrow> Inl e
      | Inr pn \<Rightarrow>
          if typeof pn = ''number''
          then (case get_prop part ''etag'' of
                  Inl e \<Rightarrow> Inl e
                | Inr et \<Rightarrow> Inr (typeof et = ''string''))
          else Inr False)"

section \<open>Sequencing\<close>

text \<open>
  \<open>try_pure r f\<close> continues with \<open>f\<close> unless the step \<open>r\<close> threw. \<open>called c k\<close> puts
  the call \<open>c\<close> in front of what \<open>k\<close> does. \<open>await c r f\<close> makes the call \<open>c\<close>, whose
  answer is \<open>r\<close>: a rejection is thrown as an error, a result is given to \<open>f\<close>.
\<close>

definition try_pure :: "thrown + 'a \<Rightarrow> ('a \<Rightarrow> 'b io) \<Rightarrow> 'b io" where
  "try_pure r f = (case r of Inl e \<Rightarrow> (Inl e, []) | Inr v \<Rightarrow> f v)"

definition called :: "call \<Rightarrow> 'a io \<Rightarrow> 'a io" where
  "called c k = (fst k, c # snd k)"

definition await :: "call \<Rightarrow> string + 'a \<Rightarrow> ('a \<Rightarrow> 'b io) \<Rightarrow> 'b io" where
  "await c r f = called c (try_pure (rejected r) f)"

definition return :: "response \<Rightarrow> response io" where
  "return r = (Inr r, [])"

definition throw :: "thrown \<Rightarrow> response io" where
  "throw e = (Inl e, [])"

text \<open>\<open>object.writeHttpMetadata(h)\<close> on fresh headers: the object's HTTP metadata.\<close>

definition writeHttpMetadata :: "'a R2Object_scheme \<Rightarrow> (string \<times> string) list" where
  "writeHttpMetadata object = obj_httpMetadata object"

section \<open>The flat worker (src/worker/src/index.ts)\<close>

definition checkMethod :: "request \<Rightarrow> string \<Rightarrow> thrown + unit" where
  "checkMethod req m =
     (if req_method req \<noteq> m
      then Inl (ThrownResponse (Response_text ''Method not allowed'' 405))
      else Inr ())"

definition getUrlParam :: "request \<Rightarrow> string \<Rightarrow> thrown + string" where
  "getUrlParam req name =
     (case map_of (req_searchParams req) name of
        None \<Rightarrow> Inl (ThrownResponse (Response_text (''Invalid or missing '' @ name) 400))
      | Some v \<Rightarrow> Inr v)"

definition getUrlParamNumber :: "request \<Rightarrow> string \<Rightarrow> thrown + number" where
  "getUrlParamNumber req name =
     (case getUrlParam req name of
        Inl e \<Rightarrow> Inl e
      | Inr v \<Rightarrow>
          (let n = parseInt v
           in if isNaN n
              then Inl (ThrownResponse (Response_text (''Invalid '' @ name) 400))
              else Inr n))"

text \<open>The arms of the \<open>switch\<close> of \<open>handleRequest\<close>, one definition each.\<close>

definition case_start_upload :: "request \<Rightarrow> Env \<Rightarrow> response io" where
  "case_start_upload request env =
     try_pure (checkMethod request ''POST'') (\<lambda>_.
     try_pure (getUrlParam request ''key'') (\<lambda>key.
     with_bucket env (\<lambda>b.
     await (CreateMultipartUpload key) (createMultipartUpload b key) (\<lambda>mpu.
     return (Response_json
       (JObj [(''key'', JStr (mpu_key mpu)), (''uploadId'', JStr (mpu_uploadId mpu))]) 200)))))"

definition case_upload_part :: "request \<Rightarrow> Env \<Rightarrow> response io" where
  "case_upload_part request env =
     try_pure (checkMethod request ''POST'') (\<lambda>_.
     case req_body request of
       None \<Rightarrow> throw (ThrownResponse (Response_json (error_obj ''No body'') 400))
     | Some request_body \<Rightarrow>
         try_pure (getUrlParam request ''key'') (\<lambda>key.
         try_pure (getUrlParam request ''uploadId'') (\<lambda>uploadId.
         try_pure (getUrlParamNumber request ''partNumber'') (\<lambda>partNumber.
         with_bucket env (\<lambda>b.
         called (ResumeMultipartUpload key uploadId)
           (let mpu = resumeMultipartUpload key uploadId
            in await (UploadPart mpu partNumber request_body)
                 (uploadPart b mpu partNumber request_body) (\<lambda>part.
               return (Response_json
                 (JObj [(''partNumber'', JNum (part_partNumber part)),
                        (''etag'', JStr (part_etag part))]) 200))))))))"

definition case_complete_upload :: "request \<Rightarrow> Env \<Rightarrow> response io" where
  "case_complete_upload request env =
     try_pure (checkMethod request ''POST'') (\<lambda>_.
     try_pure (getUrlParam request ''key'') (\<lambda>key.
     try_pure (getUrlParam request ''uploadId'') (\<lambda>uploadId.
     case req_json request of
       None \<Rightarrow> throw (Error ''SyntaxError'')
     | Some (JArr parts) \<Rightarrow>
         try_pure (every part_check parts) (\<lambda>ok.
         if \<not> ok then return (Response_json (error_obj ''Invalid parts'') 400)
         else if length parts = 0 then return (Response_json (error_obj ''No parts'') 400)
         else
           with_bucket env (\<lambda>b.
           called (ResumeMultipartUpload key uploadId)
             (let mpu = resumeMultipartUpload key uploadId
              in await (Complete mpu parts) (complete b mpu parts) (\<lambda>_.
                 return (Response_json (JObj [(''key'', JStr key)]) 200)))))
     | Some _ \<Rightarrow> return (Response_json (error_obj ''Invalid parts'') 400))))"

definition case_download :: "request \<Rightarrow> Env \<Rightarrow> response io" where
  "case_download request env =
     try_pure (checkMethod request ''GET'') (\<lambda>_.
     try_pure (getUrlParam request ''key'') (\<lambda>key.
     with_bucket env (\<lambda>b.
     await (Get key) (get b key) (\<lambda>object.
     case object of
       None \<Rightarrow> return (Response_json (error_obj ''Not found'') 404)
     | Some obj \<Rightarrow>
         return \<lparr>status = 200, headers = writeHttpMetadata obj,
                 body = RawBody (obj_body obj)\<rparr>))))"

definition case_stats :: "request \<Rightarrow> Env \<Rightarrow> response io" where
  "case_stats request env =
     try_pure (checkMethod request ''GET'') (\<lambda>_.
     try_pure (getUrlParam request ''key'') (\<lambda>key.
     with_bucket env (\<lambda>b.
     await (Head key) (head b key) (\<lambda>object.
     case object of
       None \<Rightarrow> return (Response_json (error_obj ''Not found'') 404)
     | Some obj \<Rightarrow>
         return (Response_json
           (JObj [(''size'', JNum (obj_size obj)), (''etag'', JStr (obj_etag obj))]) 200)))))"

text \<open>\<open>url.pathname.split('/').at(1)\<close>, the \<open>firstPath\<close> of \<open>handleRequest\<close>.\<close>

definition firstPath :: "request \<Rightarrow> string option" where
  "firstPath request = at_idx (split CHR ''/'' (req_pathname request)) 1"

definition handleRequest :: "request \<Rightarrow> Env \<Rightarrow> response io" where
  "handleRequest request env =
     (let auth = req_Authorization request
      in if auth = None \<or> auth \<noteq> AUTH_KEY env
         then throw (ThrownResponse (Response_json (error_obj ''Unauthorized'') 401))
         else
           (case firstPath request of
              None \<Rightarrow> throw (ThrownResponse (Response_json (error_obj ''Not found'') 404))
            | Some p \<Rightarrow>
                if p = ''start-upload'' then case_start_upload request env
                else if p = ''upload-part'' then case_upload_part request env
                else if p = ''complete-upload'' then case_complete_upload request env
                else if p = ''download'' then case_download request env
                else if p = ''stats'' then case_stats request env
                else throw (ThrownResponse (Response_json (error_obj ''Not found'') 404))))"

text \<open>
  The exported \<open>fetch\<close>: a thrown \<open>Response\<close> is the answer, any other throw is logged
  and answered with 500. The result is the response with the calls made on the bucket.
\<close>

definition fetch :: "request \<Rightarrow> Env \<Rightarrow> response \<times> call list" where
  "fetch request env =
     (case handleRequest request env of
        (Inr r, cs) \<Rightarrow> (r, cs)
      | (Inl (ThrownResponse e), cs) \<Rightarrow> (e, cs)
      | (Inl _, cs) \<Rightarrow> (Response_json (error_obj ''Internal server error'') 500, cs))"

section \<open>The Hono application (src/unnamed/part_000)\<close>

text \<open>
  The context \<open>c\<close> of a handler: the request, the bindings and the parameters the
  router took from the path, each as \<open>c.req.param\<close> gives it (the segment of the
  path, decoded by the framework: see \<open>router_match\<close> below).
\<close>

record Context =
  ctx_req :: request
  ctx_env :: Env
  ctx_param :: "(string \<times> string) list"

definition getQueryString :: "Context \<Rightarrow> string \<Rightarrow> thrown + string" where
  "getQueryString c name =
     (case map_of (req_searchParams (ctx_req c)) name of
        None \<Rightarrow> Inl (HTTPException 400 (''Missing '' @ name))
      | Some val \<Rightarrow> Inr val)"

definition getQueryNumber :: "Context \<Rightarrow> string \<Rightarrow> thrown + number" where
  "getQueryNumber c name =
     (case getQueryString c name of
        Inl e \<Rightarrow> Inl e
      | Inr val \<Rightarrow>
          (let n = parseInt val
           in if isNaN n then Inl (HTTPException 400 (''Invalid '' @ name)) else Inr n))"

definition getPathString :: "Context \<Rightarrow> string \<Rightarrow> thrown + string" where
  "getPathString c name =
     (case map_of (ctx_param c) name of
        None \<Rightarrow> Inl (HTTPException 400 (''Missing '' @ name))
      | Some val \<Rightarrow> Inr val)"

definition getPathNumber :: "Context \<Rightarrow> string \<Rightarrow> thrown + number" where
  "getPathNumber c name =
     (case getPathString c name of
        Inl e \<Rightarrow> Inl e
      | Inr val \<Rightarrow>
          (let n = parseInt val
           in if isNaN n then Inl (HTTPException 400 (''Invalid '' @ name)) else Inr n))"

text \<open>\<open>app.onError\<close>, applied to what the middleware and the handler did.\<close>

definition onError :: "response io \<Rightarrow> response \<times> call list" where
  "onError r =
     (case r of
        (Inr res, cs) \<Rightarrow> (res, cs)
      | (Inl (HTTPException st msg), cs) \<Rightarrow> (Response_json (error_obj msg) st, cs)
      | (Inl _, cs) \<Rightarrow> (Response_json (error_obj ''Internal Server Error'') 500, cs))"

text \<open>The middleware of \<open>app.use\<close>; \<open>next\<close> is what follows it.\<close>

definition middleware :: "Context \<Rightarrow> response io \<Rightarrow> response io" where
  "middleware c next =
     (if BUCKET (ctx_env c) = None
      then return (Response_json (error_obj ''Missing BUCKET binding'') 500)
      else if AUTH_KEY (ctx_env c) = None
      then return (Response_json (error_obj ''Missing AUTH_KEY secret'') 500)
      else next)"

text \<open>The handlers, named by method and route.\<close>

definition post_uploads_create :: "Context \<Rightarrow> response io" where
  "post_uploads_create c =
     try_pure (getQueryString c ''key'') (\<lambda>key.
     with_bucket (ctx_env c) (\<lambda>b.
     await (CreateMultipartUpload key) (createMultipartUpload b key) (\<lambda>mpu.
     return (Response_json
       (JObj [(''key'', JStr (mpu_key mpu)), (''uploadId'', JStr (mpu_uploadId mpu))]) 200))))"

definition post_uploads_upload_part :: "Context \<Rightarrow> response io" where
  "post_uploads_upload_part c =
     (case req_body (ctx_req c) of
        None \<Rightarrow> throw (HTTPException 400 ''No body'')
      | Some raw_body \<Rightarrow>
          try_pure (getQueryString c ''key'') (\<lambda>key.
          try_pure (getQueryString c ''uploadId'') (\<lambda>uploadId.
          try_pure (getQueryNumber c ''partNumber'') (\<lambda>partNumber.
          with_bucket (ctx_env c) (\<lambda>b.
          called (ResumeMultipartUpload key uploadId)
            (let mpu = resumeMultipartUpload key uploadId
             in await (UploadPart mpu partNumber raw_body)
                  (uploadPart b mpu partNumber raw_body) (\<lambda>part.
                return (Response_json
                  (JObj [(''partNumber'', JNum (part_partNumber part)),
                         (''etag'', JStr (part_etag part))]) 200))))))))"

definition post_uploads_complete :: "Context \<Rightarrow> response io" where
  "post_uploads_complete c =
     try_pure (getQueryString c ''key'') (\<lambda>key.
     try_pure (getQueryString c ''uploadId'') (\<lambda>uploadId.
     case req_json (ctx_req c) of
       None \<Rightarrow> throw (Error ''SyntaxError'')
     | Some (JArr parts) \<Rightarrow>
         try_pure (every part_check parts) (\<lambda>ok.
         if \<not> ok then throw (HTTPException 400 ''Invalid parts'')
         else if length parts = 0 then throw (HTTPException 400 ''No parts'')
         else
           with_bucket (ctx_env c) (\<lambda>b.
           called (ResumeMultipartUpload key uploadId)
             (let mpu = resumeMultipartUpload key uploadId
              in await (Complete mpu parts) (complete b mpu parts) (\<lambda>_.
                 return (Response_json (JObj [(''key'', JStr key)]) 200)))))
     | Some _ \<Rightarrow> throw (HTTPException 400 ''Invalid parts'')))"

definition get_objects :: "Context \<Rightarrow> response io" where
  "get_objects c =
     (let prefix = map_of (req_searchParams (ctx_req c)) ''prefix''
      in with_bucket (ctx_env c) (\<lambda>b.
         await (ListObjects prefix 1000) (list_objects b prefix 1000) (\<lambda>listed.
         return (Response_json
           (JArr (map (\<lambda>v. JObj [(''key'', JStr (obj_key v)), (''size'', JNum (obj_size v)),
                                  (''etag'', JStr (obj_etag v))]) listed)) 200))))"

definition get_objects_key :: "Context \<Rightarrow> response io" where
  "get_objects_key c =
     try_pure (getPathString c ''key'') (\<lambda>key.
     with_bucket (ctx_env c) (\<lambda>b.
     await (Get key) (get b key) (\<lambda>object.
     case object of
       None \<Rightarrow> throw (HTTPException 404 ''Not found'')
     | Some obj \<Rightarrow>
         return \<lparr>status = 200, headers = writeHttpMetadata obj,
                 body = RawBody (obj_body obj)\<rparr>)))"

definition get_objects_key_stats :: "Context \<Rightarrow> response io" where
  "get_objects_key_stats c =
     try_pure (getPathString c ''key'') (\<lambda>key.
     with_bucket (ctx_env c) (\<lambda>b.
     await (Head key) (head b key) (\<lambda>object.
     case object of
       None \<Rightarrow> throw (HTTPException 404 ''Not found'')
     | Some obj \<Rightarrow>
         return (Response_json
           (JObj [(''size'', JNum (obj_size obj)), (''etag'', JStr (obj_etag obj))]) 200))))"

definition delete_objects_key :: "Context \<Rightarrow> response io" where
  "delete_objects_key c =
     try_pure (getPathString c ''key'') (\<lambda>key.
     with_bucket (ctx_env c) (\<lambda>b.
     await (Delete key) (delete b key) (\<lambda>_.
     return \<lparr>status = 204, headers = [], body = NoBody\<rparr>)))"

text \<open>
  The framework's part, which is not in the repository: routes are tried by method
  and path; \<open>:key\<close> stands for one non-empty segment; a request no route takes gets
  the framework's own plain-text 404; a \<open>HEAD\<close> request is dispatched as \<open>GET\<close> and
  answered without a body.

  The framework decodes percent escapes: those of the path before it matches the
  routes, and those of a segment when \<open>c.req.param\<close> reads it. How it decodes is not
  the repository's and is a parameter here, \<open>decode_path\<close> and \<open>decode_param\<close>; a
  string without \<open>%\<close> is left as it is by any decoding.
\<close>

record framework =
  decode_path :: "string \<Rightarrow> string"
  decode_param :: "string \<Rightarrow> string"

definition getPath :: "framework \<Rightarrow> request \<Rightarrow> string" where
  "getPath fw request =
     (if CHR ''%'' \<in> set (req_pathname request)
      then decode_path fw (req_pathname request)
      else req_pathname request)"

definition getDecodedParam :: "framework \<Rightarrow> string \<Rightarrow> string" where
  "getDecodedParam fw param =
     (if CHR ''%'' \<in> set param then decode_param fw param else param)"

fun objects_key :: "string list \<Rightarrow> string option" where
  "objects_key [e, p, k] = (if e = [] \<and> p = ''objects'' \<and> k \<noteq> [] then Some k else None)"
| "objects_key segs = None"

fun objects_key_stats :: "string list \<Rightarrow> string option" where
  "objects_key_stats [e, p, k, s] =
     (if e = [] \<and> p = ''objects'' \<and> k \<noteq> [] \<and> s = ''stats'' then Some k else None)"
| "objects_key_stats segs = None"

text \<open>
  The route of a method and a path (the path as \<open>getPath\<close> gives it), with the
  parameters as \<open>c.req.param\<close> gives them.
\<close>

definition router_match ::
  "framework \<Rightarrow> string \<Rightarrow> string \<Rightarrow>
   ((Context \<Rightarrow> response io) \<times> (string \<times> string) list) option" where
  "router_match fw m path =
     (let segs = split CHR ''/'' path
      in if m = ''POST'' \<and> path = ''/uploads/create'' then Some (post_uploads_create, [])
         else if m = ''POST'' \<and> path = ''/uploads/upload-part''
           then Some (post_uploads_upload_part, [])
         else if m = ''POST'' \<and> path = ''/uploads/complete''
           then Some (post_uploads_complete, [])
         else if m = ''GET'' \<and> path = ''/objects'' then Some (get_objects, [])
         else if m = ''GET'' \<and> objects_key segs \<noteq> None
           then Some (get_objects_key,
             [(''key'', getDecodedParam fw (the (objects_key segs)))])
         else if m = ''GET'' \<and> objects_key_stats segs \<noteq> None
           then Some (get_objects_key_stats,
             [(''key'', getDecodedParam fw (the (objects_key_stats segs)))])
         else if m = ''DELETE'' \<and> objects_key segs \<noteq> None
           then Some (delete_objects_key,
             [(''key'', getDecodedParam fw (the (objects_key segs)))])
         else None)"

definition notFound :: response where
  "notFound = Response_text ''404 Not Found'' 404"

definition dispatch ::
  "framework \<Rightarrow> string \<Rightarrow> request \<Rightarrow> Env \<Rightarrow> response \<times> call list" where
  "dispatch fw m request env =
     (let c = \<lparr>ctx_req = request, ctx_env = env, ctx_param = []\<rparr>
      in onError (middleware c
           (case router_match fw m (getPath fw request) of
              None \<Rightarrow> return notFound
            | Some (handler, params) \<Rightarrow> handler (c\<lparr>ctx_param := params\<rparr>))))"

definition app :: "framework \<Rightarrow> request \<Rightarrow> Env \<Rightarrow> response \<times> call list" where
  "app fw request env =
     (if req_method request = ''HEAD''
      then (let r = dispatch fw ''GET'' request env in ((fst r)\<lparr>body := NoBody\<rparr>, snd r))
      else dispatch fw (req_method request) request env)"

section \<open>A bucket and requests to run the gateways on\<close>

text \<open>
  A bucket that holds no object and accepts every upload: it issues the upload id
  \<open>U1\<close> and the etag \<open>E1\<close>.
\<close>

definition empty_bucket :: R2Bucket where
  "empty_bucket =
     \<lparr>createMultipartUpload = (\<lambda>k. Inr \<lparr>mpu_key = k, mpu_uploadId = ''U1''\<rparr>),
      uploadPart = (\<lambda>mpu n bytes. Inr \<lparr>part_partNumber = n, part_etag = ''E1''\<rparr>),
      complete = (\<lambda>mpu parts. Inr ()),
      get = (\<lambda>k. Inr None),
      head = (\<lambda>k. Inr None),
      list_objects = (\<lambda>prefix limit. Inr []),
      delete = (\<lambda>k. Inr ())\<rparr>"

definition test_env :: Env where
  "test_env = \<lparr>BUCKET = Some empty_bucket, AUTH_KEY = Some ''secret''\<rparr>"

text \<open>
  A framework that leaves every string as it is, to run the application on paths
  without escapes: there the decoding has no part, and the application answers alike
  under every framework (\<open>app_plain_path\<close>).
\<close>

definition plain_framework :: framework where
  "plain_framework = \<lparr>decode_path = (\<lambda>s. s), decode_param = (\<lambda>s. s)\<rparr>"

text \<open>
  The authorized requests of the flat worker and the requests of the application used
  below. The secret of \<open>test_env\<close> is \<open>secret\<close>.
\<close>

definition flat_request ::
  "string \<Rightarrow> string \<Rightarrow> (string \<times> string) list \<Rightarrow> string option \<Rightarrow> jsval option \<Rightarrow> request" where
  "flat_request m path query b j =
     \<lparr>req_method = m, req_pathname = path, req_searchParams = query,
      req_Authorization = Some ''secret'', req_body = b, req_json = j\<rparr>"

definition anonymous_request ::
  "string \<Rightarrow> string \<Rightarrow> (string \<times> string) list \<Rightarrow> string option \<Rightarrow> jsval option \<Rightarrow> request" where
  "anonymous_request m path query b j =
     \<lparr>req_method = m, req_pathname = path, req_searchParams = query,
      req_Authorization = None, req_body = b, req_json = j\<rparr>"

text \<open>
  A parts list with a repeated, a zero and a negative part number, not in ascending
  order.
\<close>

definition unordered_parts :: "jsval list" where
  "unordered_parts =
     [JObj [(''partNumber'', JNum (Num 2)), (''etag'', JStr ''E2'')],
      JObj [(''partNumber'', JNum (Num 2)), (''etag'', JStr ''E2'')],
      JObj [(''partNumber'', JNum (Num 0)), (''etag'', JStr ''E0'')],
      JObj [(''partNumber'', JNum (Num (- 1))), (''etag'', JStr ''E9'')],
      JObj [(''partNumber'', JNum (Num 1)), (''etag'', JStr ''E1'')]]"

definition unordered_parts_text :: string where
  "unordered_parts_text =
     ''[{\"partNumber\":2,\"etag\":\"E2\"},{\"partNumber\":2,\"etag\":\"E2\"},'' @
     ''{\"partNumber\":0,\"etag\":\"E0\"},{\"partNumber\":-1,\"etag\":\"E9\"},'' @
     ''{\"partNumber\":1,\"etag\":\"E1\"}]''"

text \<open>The \<open>Complete\<close> calls among the calls made.\<close>

fun is_Complete :: "call \<Rightarrow> bool" where
  "is_Complete (Complete mpu parts) = True"
| "is_Complete c = False"

section \<open>The words of the specification\<close>

text \<open>
  A base-10 integer, as the specification words the numeric fields: an optional sign
  and then decimal digits only, at least one.
\<close>

definition base10_integer :: "string \<Rightarrow> bool" where
  "base10_integer s =
     (let ds = (if s \<noteq> [] \<and> (hd s = CHR ''+'' \<or> hd s = CHR ''-'') then tl s else s)
      in ds \<noteq> [] \<and> list_all is_digit ds)"

text \<open>
  The completion body, as the specification words it: a sequence of objects each
  containing an integer \<open>partNumber\<close> and a string \<open>etag\<close>. A number is an integer
  when it is finite and has no fraction; \<open>Rounded n\<close> is finite below the point where
  the doubles end, \<open>2 ^ 1024 - 2 ^ 970\<close>.
\<close>

fun is_integer :: "number \<Rightarrow> bool" where
  "is_integer (Num q) = (of_int \<lfloor>q\<rfloor> = q)"
| "is_integer NegZero = True"
| "is_integer NaN = False"
| "is_integer (Rounded n) = (\<bar>n\<bar> < 2 ^ 1024 - 2 ^ 970)"

fun spec_part :: "jsval \<Rightarrow> bool" where
  "spec_part (JObj kvs) =
     ((case map_of kvs ''partNumber'' of Some (JNum n) \<Rightarrow> is_integer n | _ \<Rightarrow> False)
      \<and> (case map_of kvs ''etag'' of Some (JStr s) \<Rightarrow> True | _ \<Rightarrow> False))"
| "spec_part v = False"

fun spec_parts :: "jsval \<Rightarrow> bool" where
  "spec_parts (JArr ps) = list_all spec_part ps"
| "spec_parts v = False"

text \<open>
  What the handlers' test comes to on a value that is not \<open>null\<close>: an object with a
  \<open>partNumber\<close> that is a number, integer or not, and an \<open>etag\<close> that is a string.
\<close>

fun typed_part :: "jsval \<Rightarrow> bool" where
  "typed_part (JObj kvs) =
     ((case map_of kvs ''partNumber'' of Some (JNum n) \<Rightarrow> True | _ \<Rightarrow> False)
      \<and> (case map_of kvs ''etag'' of Some (JStr s) \<Rightarrow> True | _ \<Rightarrow> False))"
| "typed_part v = False"

section \<open>The replies of a bucket\<close>

text \<open>
  The reply of a bucket to a call, to compare what two buckets answer to the calls of
  a handler.
\<close>

datatype reply =
    CreateReply "string + R2MultipartUpload"
  | ResumeReply R2MultipartUpload
  | UploadPartReply "string + R2UploadedPart"
  | CompleteReply "string + unit"
  | GetReply "string + R2ObjectBody option"
  | HeadReply "string + R2Object option"
  | ListReply "string + R2Object list"
  | DeleteReply "string + unit"

fun reply_of :: "R2Bucket \<Rightarrow> call \<Rightarrow> reply" where
  "reply_of b (CreateMultipartUpload k) = CreateReply (createMultipartUpload b k)"
| "reply_of b (ResumeMultipartUpload k u) = ResumeReply (resumeMultipartUpload k u)"
| "reply_of b (UploadPart mpu n bytes) = UploadPartReply (uploadPart b mpu n bytes)"
| "reply_of b (Complete mpu parts) = CompleteReply (complete b mpu parts)"
| "reply_of b (Get k) = GetReply (get b k)"
| "reply_of b (Head k) = HeadReply (head b k)"
| "reply_of b (ListObjects prefix limit) = ListReply (list_objects b prefix limit)"
| "reply_of b (Delete k) = DeleteReply (delete b k)"

definition same_replies :: "R2Bucket \<Rightarrow> R2Bucket \<Rightarrow> call list \<Rightarrow> bool" where
  "same_replies b1 b2 cs = list_all (\<lambda>c. reply_of b1 c = reply_of b2 c) cs"

text \<open>
  A step run on a bucket is determined by the replies when any bucket that gives the
  same replies to the calls of the step makes it end the same way.
\<close>

definition determined :: "(R2Bucket \<Rightarrow> 'a io) \<Rightarrow> bool" where
  "determined f = (\<forall>b1 b2. same_replies b1 b2 (snd (f b1)) \<longrightarrow> f b2 = f b1)"

section \<open>Facts about the sequencing and the builtins\<close>

lemmas seq_defs =
  try_pure_def called_def await_def return_def throw_def rejected_def with_bucket_def

lemma split_no_separator: "c \<notin> set s \<Longrightarrow> split c s = [s]"
  by (induction s) auto

section \<open>Facts about the two gateways\<close>

lemma fetch_calls: "snd (fetch request env) = snd (handleRequest request env)"
  by (simp add: fetch_def split: prod.splits sum.splits thrown.splits)

lemma handleRequest_unauthorized:
  "req_Authorization request = None \<or> req_Authorization request \<noteq> AUTH_KEY env \<Longrightarrow>
   handleRequest request env =
     throw (ThrownResponse (Response_json (error_obj ''Unauthorized'') 401))"
  by (auto simp: handleRequest_def)

lemma handleRequest_authorized:
  "req_Authorization request = Some a \<Longrightarrow> AUTH_KEY env = Some a \<Longrightarrow>
   firstPath request = Some p \<Longrightarrow>
   handleRequest request env =
     (if p = ''start-upload'' then case_start_upload request env
      else if p = ''upload-part'' then case_upload_part request env
      else if p = ''complete-upload'' then case_complete_upload request env
      else if p = ''download'' then case_download request env
      else if p = ''stats'' then case_stats request env
      else throw (ThrownResponse (Response_json (error_obj ''Not found'') 404)))"
  by (simp add: handleRequest_def)

lemma fetch_unauthorized:
  "req_Authorization request = None \<or> req_Authorization request \<noteq> AUTH_KEY env \<Longrightarrow>
   fetch request env = (Response_json (error_obj ''Unauthorized'') 401, [])"
  by (simp add: fetch_def handleRequest_unauthorized throw_def)

lemma getQuery_ignores_Authorization:
  "getQueryString (c\<lparr>ctx_req := (ctx_req c)\<lparr>req_Authorization := a\<rparr>\<rparr>) name = getQueryString c name"
  "getQueryNumber (c\<lparr>ctx_req := (ctx_req c)\<lparr>req_Authorization := a\<rparr>\<rparr>) name = getQueryNumber c name"
  "getPathString (c\<lparr>ctx_req := (ctx_req c)\<lparr>req_Authorization := a\<rparr>\<rparr>) name = getPathString c name"
  by (simp_all add: getQueryString_def getQueryNumber_def getPathString_def)

lemma handler_ignores_Authorization:
  "post_uploads_create (c\<lparr>ctx_req := (ctx_req c)\<lparr>req_Authorization := a\<rparr>\<rparr>) = post_uploads_create c"
  "post_uploads_upload_part (c\<lparr>ctx_req := (ctx_req c)\<lparr>req_Authorization := a\<rparr>\<rparr>) = post_uploads_upload_part c"
  "post_uploads_complete (c\<lparr>ctx_req := (ctx_req c)\<lparr>req_Authorization := a\<rparr>\<rparr>) = post_uploads_complete c"
  "get_objects (c\<lparr>ctx_req := (ctx_req c)\<lparr>req_Authorization := a\<rparr>\<rparr>) = get_objects c"
  "get_objects_key (c\<lparr>ctx_req := (ctx_req c)\<lparr>req_Authorization := a\<rparr>\<rparr>) = get_objects_key c"
  "get_objects_key_stats (c\<lparr>ctx_req := (ctx_req c)\<lparr>req_Authorization := a\<rparr>\<rparr>) = get_objects_key_stats c"
  "delete_objects_key (c\<lparr>ctx_req := (ctx_req c)\<lparr>req_Authorization := a\<rparr>\<rparr>) = delete_objects_key c"
  by (simp_all add: post_uploads_create_def post_uploads_upload_part_def post_uploads_complete_def
      get_objects_def get_objects_key_def get_objects_key_stats_def delete_objects_key_def
      getQuery_ignores_Authorization cong: option.case_cong jsval.case_cong if_cong)

lemma router_match_cases:
  "router_match fw m path = Some (h, ps) \<Longrightarrow>
   h \<in> {post_uploads_create, post_uploads_upload_part, post_uploads_complete, get_objects,
        get_objects_key, get_objects_key_stats, delete_objects_key}"
  by (auto simp: router_match_def Let_def split: if_splits)

lemma getPath_plain:
  "CHR ''%'' \<notin> set (req_pathname request) \<Longrightarrow> getPath fw request = req_pathname request"
  by (simp add: getPath_def)

lemma getPath_ignores_Authorization:
  "getPath fw (request\<lparr>req_Authorization := a\<rparr>) = getPath fw request"
  by (simp add: getPath_def)

lemma dispatch_ignores_Authorization:
  "dispatch fw m (request\<lparr>req_Authorization := a\<rparr>) env = dispatch fw m request env"
proof (cases "router_match fw m (getPath fw request)")
  case None
  then show ?thesis
    by (simp add: dispatch_def middleware_def Let_def getPath_ignores_Authorization)
next
  case (Some hp)
  obtain h ps where hp: "hp = (h, ps)" by (cases hp)
  have "h (\<lparr>ctx_req = request\<lparr>req_Authorization := a\<rparr>, ctx_env = env, ctx_param = ps\<rparr>)
      = h \<lparr>ctx_req = request, ctx_env = env, ctx_param = ps\<rparr>"
    using router_match_cases [OF Some [unfolded hp]]
      handler_ignores_Authorization [where c = "\<lparr>ctx_req = request, ctx_env = env, ctx_param = ps\<rparr>" and a = a]
    by auto
  with Some hp show ?thesis
    by (simp add: dispatch_def middleware_def Let_def getPath_ignores_Authorization)
qed

lemma app_ignores_Authorization:
  "app fw (request\<lparr>req_Authorization := a\<rparr>) env = app fw request env"
  by (simp add: app_def dispatch_ignores_Authorization)

text \<open>
  A path without \<open>%\<close> is routed alike whatever the decoding: the segments of the path
  have no \<open>%\<close> either.
\<close>

lemma split_not_Nil: "split c s \<noteq> []"
  by (induction s) (simp_all add: Let_def)

lemma split_chars: "seg \<in> set (split c s) \<Longrightarrow> set seg \<subseteq> set s"
proof (induction s arbitrary: seg)
  case Nil
  then show ?case by simp
next
  case (Cons x xs)
  show ?case
  proof (cases "x = c")
    case True
    with Cons.prems have "seg = [] \<or> seg \<in> set (split c xs)" by simp
    with Cons.IH show ?thesis by auto
  next
    case False
    have ne: "split c xs \<noteq> []" by (rule split_not_Nil)
    from False Cons.prems
    have "seg = x # hd (split c xs) \<or> seg \<in> set (tl (split c xs))"
      by (simp add: Let_def)
    then show ?thesis
    proof
      assume s: "seg = x # hd (split c xs)"
      from ne have "hd (split c xs) \<in> set (split c xs)" by simp
      then have "set (hd (split c xs)) \<subseteq> set xs" by (rule Cons.IH)
      with s show ?thesis by auto
    next
      assume "seg \<in> set (tl (split c xs))"
      with ne have "seg \<in> set (split c xs)" by (metis list.set_sel(2))
      then have "set seg \<subseteq> set xs" by (rule Cons.IH)
      then show ?thesis by auto
    qed
  qed
qed

lemma objects_key_mem:
  "objects_key segs = Some k \<Longrightarrow> k \<in> set segs"
  "objects_key_stats segs = Some k \<Longrightarrow> k \<in> set segs"
  by (induction segs rule: objects_key.induct; simp split: if_splits)
    (induction segs rule: objects_key_stats.induct; simp split: if_splits)

lemma getDecodedParam_plain:
  "CHR ''%'' \<notin> set param \<Longrightarrow> getDecodedParam fw param = param"
  by (simp add: getDecodedParam_def)

lemma router_match_plain:
  assumes "CHR ''%'' \<notin> set path"
  shows "router_match fw m path = router_match fw' m path"
proof -
  have k: "getDecodedParam fw k = getDecodedParam fw' k"
    if "objects_key (split CHR ''/'' path) = Some k" for k
  proof -
    from that have "k \<in> set (split CHR ''/'' path)" by (rule objects_key_mem)
    then have "set k \<subseteq> set path" by (rule split_chars)
    with assms have "CHR ''%'' \<notin> set k" by auto
    then show ?thesis by (simp add: getDecodedParam_plain)
  qed
  have s: "getDecodedParam fw k = getDecodedParam fw' k"
    if "objects_key_stats (split CHR ''/'' path) = Some k" for k
  proof -
    from that have "k \<in> set (split CHR ''/'' path)" by (rule objects_key_mem)
    then have "set k \<subseteq> set path" by (rule split_chars)
    with assms have "CHR ''%'' \<notin> set k" by auto
    then show ?thesis by (simp add: getDecodedParam_plain)
  qed
  show ?thesis
    using k s by (auto simp: router_match_def Let_def)
qed

lemma app_plain_path:
  assumes "CHR ''%'' \<notin> set (req_pathname request)"
  shows "app fw request env = app fw' request env"
proof -
  from assms have p: "getPath fw request = req_pathname request"
    "getPath fw' request = req_pathname request"
    by (simp_all add: getPath_def)
  from assms have "router_match fw m (req_pathname request)
      = router_match fw' m (req_pathname request)" for m
    by (rule router_match_plain)
  then have "dispatch fw m request env = dispatch fw' m request env" for m
    by (simp add: dispatch_def p)
  then show ?thesis by (simp add: app_def)
qed

lemma app_not_HEAD:
  "req_method request \<noteq> ''HEAD'' \<Longrightarrow> app fw request env = dispatch fw (req_method request) request env"
  by (simp add: app_def)

lemma dispatch_route:
  "BUCKET env \<noteq> None \<Longrightarrow> AUTH_KEY env \<noteq> None \<Longrightarrow>
   router_match fw m (getPath fw request) = Some (h, ps) \<Longrightarrow>
   dispatch fw m request env = onError (h \<lparr>ctx_req = request, ctx_env = env, ctx_param = ps\<rparr>)"
  by (auto simp: dispatch_def middleware_def Let_def)

lemma router_match_uploads:
  "router_match fw ''POST'' ''/uploads/create'' = Some (post_uploads_create, [])"
  "router_match fw ''POST'' ''/uploads/upload-part'' = Some (post_uploads_upload_part, [])"
  "router_match fw ''POST'' ''/uploads/complete'' = Some (post_uploads_complete, [])"
  by (simp_all add: router_match_def)

lemma app_post_uploads:
  assumes "BUCKET env \<noteq> None" "AUTH_KEY env \<noteq> None" "req_method request = ''POST''"
  shows "req_pathname request = ''/uploads/create'' \<Longrightarrow>
      app fw request env = onError (post_uploads_create \<lparr>ctx_req = request, ctx_env = env, ctx_param = []\<rparr>)"
    and "req_pathname request = ''/uploads/upload-part'' \<Longrightarrow>
      app fw request env = onError (post_uploads_upload_part \<lparr>ctx_req = request, ctx_env = env, ctx_param = []\<rparr>)"
    and "req_pathname request = ''/uploads/complete'' \<Longrightarrow>
      app fw request env = onError (post_uploads_complete \<lparr>ctx_req = request, ctx_env = env, ctx_param = []\<rparr>)"
  using assms by (simp_all add: app_not_HEAD dispatch_route router_match_uploads getPath_def)

lemma case_complete_upload_empty:
  "req_json request = Some (JArr []) \<Longrightarrow>
   filter is_Complete (snd (case_complete_upload request env)) = []"
  by (simp add: case_complete_upload_def seq_defs split: sum.splits)

lemma flat_cases_no_Complete:
  "filter is_Complete (snd (case_start_upload request env)) = []"
  "filter is_Complete (snd (case_upload_part request env)) = []"
  "filter is_Complete (snd (case_download request env)) = []"
  "filter is_Complete (snd (case_stats request env)) = []"
  by (simp_all add: case_start_upload_def case_upload_part_def case_download_def case_stats_def
      seq_defs Let_def split: sum.splits option.splits)

lemma handleRequest_empty_parts:
  "req_json request = Some (JArr []) \<Longrightarrow>
   filter is_Complete (snd (handleRequest request env)) = []"
  by (simp add: handleRequest_def Let_def throw_def case_complete_upload_empty
      flat_cases_no_Complete split: option.splits)

lemma post_uploads_complete_empty:
  "req_json (ctx_req c) = Some (JArr []) \<Longrightarrow>
   filter is_Complete (snd (post_uploads_complete c)) = []"
  by (simp add: post_uploads_complete_def seq_defs split: sum.splits)

lemma app_handlers_no_Complete:
  "filter is_Complete (snd (post_uploads_create c)) = []"
  "filter is_Complete (snd (post_uploads_upload_part c)) = []"
  "filter is_Complete (snd (get_objects c)) = []"
  "filter is_Complete (snd (get_objects_key c)) = []"
  "filter is_Complete (snd (get_objects_key_stats c)) = []"
  "filter is_Complete (snd (delete_objects_key c)) = []"
  by (simp_all add: post_uploads_create_def post_uploads_upload_part_def get_objects_def
      get_objects_key_def get_objects_key_stats_def delete_objects_key_def
      seq_defs Let_def split: sum.splits option.splits)

lemma onError_calls: "snd (onError r) = snd r"
  by (simp add: onError_def split: prod.splits sum.splits thrown.splits)

lemma dispatch_empty_parts:
  assumes "req_json request = Some (JArr [])"
  shows "filter is_Complete (snd (dispatch fw m request env)) = []"
proof (cases "router_match fw m (getPath fw request)")
  case None
  then show ?thesis
    by (simp add: dispatch_def onError_calls middleware_def Let_def return_def)
next
  case (Some hp)
  obtain h ps where hp: "hp = (h, ps)" by (cases hp)
  have "filter is_Complete (snd (h \<lparr>ctx_req = request, ctx_env = env, ctx_param = ps\<rparr>)) = []"
    using router_match_cases [OF Some [unfolded hp]] assms
    by (auto simp: app_handlers_no_Complete post_uploads_complete_empty)
  with Some hp show ?thesis
    by (simp add: dispatch_def onError_calls middleware_def Let_def return_def)
qed

section \<open>Facts about the validation of the parts\<close>

lemma part_check_typed: "p \<noteq> JNull \<Longrightarrow> part_check p = Inr (typed_part p)"
  by (cases p) (auto simp: part_check_def split: option.splits jsval.splits)

lemma every_part_check:
  "JNull \<notin> set ps \<Longrightarrow> every part_check ps = Inr (list_all typed_part ps)"
  by (induction ps) (auto simp: part_check_typed)

lemma every_part_check_True:
  "every part_check ps = Inr True \<Longrightarrow> list_all typed_part ps"
proof (induction ps)
  case Nil
  then show ?case by simp
next
  case (Cons p ps)
  show ?case
  proof (cases "p = JNull")
    case True
    with Cons.prems show ?thesis by (simp add: part_check_def)
  next
    case False
    with Cons.prems have "typed_part p \<and> every part_check ps = Inr True"
      by (simp add: part_check_typed split: if_splits)
    with Cons.IH show ?thesis by simp
  qed
qed

lemma case_complete_upload_parts:
  assumes "req_method request = ''POST''"
    and "map_of (req_searchParams request) ''key'' = Some k"
    and "map_of (req_searchParams request) ''uploadId'' = Some u"
    and "req_json request = Some v"
  shows "case_complete_upload request env =
     (case v of
        JArr parts \<Rightarrow>
          try_pure (every part_check parts) (\<lambda>ok.
          if \<not> ok then return (Response_json (error_obj ''Invalid parts'') 400)
          else if parts = [] then return (Response_json (error_obj ''No parts'') 400)
          else
            with_bucket env (\<lambda>b.
            called (ResumeMultipartUpload k u)
              (await (Complete (resumeMultipartUpload k u) parts)
                 (complete b (resumeMultipartUpload k u) parts) (\<lambda>_.
                 return (Response_json (JObj [(''key'', JStr k)]) 200)))))
      | _ \<Rightarrow> return (Response_json (error_obj ''Invalid parts'') 400))"
  using assms
  by (simp add: case_complete_upload_def checkMethod_def getUrlParam_def try_pure_def Let_def
      split: jsval.splits sum.splits)

lemma post_uploads_complete_parts:
  assumes "map_of (req_searchParams (ctx_req c)) ''key'' = Some k"
    and "map_of (req_searchParams (ctx_req c)) ''uploadId'' = Some u"
    and "req_json (ctx_req c) = Some v"
  shows "post_uploads_complete c =
     (case v of
        JArr parts \<Rightarrow>
          try_pure (every part_check parts) (\<lambda>ok.
          if \<not> ok then throw (HTTPException 400 ''Invalid parts'')
          else if parts = [] then throw (HTTPException 400 ''No parts'')
          else
            with_bucket (ctx_env c) (\<lambda>b.
            called (ResumeMultipartUpload k u)
              (await (Complete (resumeMultipartUpload k u) parts)
                 (complete b (resumeMultipartUpload k u) parts) (\<lambda>_.
                 return (Response_json (JObj [(''key'', JStr k)]) 200)))))
      | _ \<Rightarrow> throw (HTTPException 400 ''Invalid parts''))"
  using assms
  by (simp add: post_uploads_complete_def getQueryString_def try_pure_def Let_def
      split: jsval.splits sum.splits)

lemma three_halves_not_integer: "\<not> is_integer (Num (3 / 2))"
proof -
  have "\<lfloor>(3::rat) / 2\<rfloor> = 1" by (simp add: floor_eq_iff)
  then show ?thesis by simp
qed

section \<open>Facts about \<open>parseInt\<close>\<close>

lemma white_nonempty: "\<forall>w\<in>set white_space_chars. w \<noteq> []"
  by (simp add: white_space_chars_def)

lemma white_len_first:
  assumes "c \<notin> set (map hd white_space_chars)"
  shows "white_len (c # s) = 0"
proof -
  have "take (length w) (c # s) \<noteq> w" if "w \<in> set white_space_chars" for w
  proof
    assume eq: "take (length w) (c # s) = w"
    from that white_nonempty have "w \<noteq> []" by blast
    then obtain a w' where w: "w = a # w'" by (cases w) auto
    with eq have "c = a" by simp
    with w that assms show False by force
  qed
  then have "find (\<lambda>w. take (length w) (c # s) = w) white_space_chars = None"
    by (simp add: find_None_iff)
  then show ?thesis by (simp add: white_len_def)
qed

lemma white_len_digit: "is_digit c \<Longrightarrow> white_len (c # s) = 0"
  by (rule white_len_first) (auto simp: is_digit_def white_space_chars_def)

lemma white_len_sign: "white_len (CHR ''+'' # s) = 0" "white_len (CHR ''-'' # s) = 0"
  by (rule white_len_first, simp add: white_space_chars_def)+

lemma not_digit_sign: "\<not> is_digit CHR ''+''" "\<not> is_digit CHR ''-''"
  by (simp_all add: is_digit_def)

lemma trim_start_none: "white_len s = 0 \<Longrightarrow> trim_start s = s"
  by (simp add: trim_start.simps)

lemma white_len_white: "w \<in> set white_space_chars \<Longrightarrow> white_len (w @ s) = length w"
  apply (simp only: white_space_chars_def list.set insert_iff empty_iff)
  apply (elim disjE)
  apply (simp_all add: white_len_def white_space_chars_def)
  done

lemma white_not_empty: "w \<in> set white_space_chars \<Longrightarrow> w \<noteq> []"
  using white_nonempty by blast

lemma trim_start_white: "w \<in> set white_space_chars \<Longrightarrow> trim_start (w @ s) = trim_start s"
  using white_len_white [of w s] white_not_empty [of w]
  by (subst trim_start.simps) simp

lemma takeWhile_digits:
  "list_all is_digit ds \<Longrightarrow> rest = [] \<or> \<not> is_digit (hd rest) \<Longrightarrow>
   takeWhile is_digit (ds @ rest) = ds"
  by (cases rest) (simp_all add: list_all_iff takeWhile_append2 takeWhile_tail)

text \<open>
  What \<open>parseInt\<close> reads: white space, a sign, a run of digits and anything after it
  that does not go on with a digit.
\<close>

lemma parseInt_white: "w \<in> set white_space_chars \<Longrightarrow> parseInt (w @ s) = parseInt s"
  by (simp add: parseInt_def trim_start_white)

lemma parseInt_unsigned:
  assumes "ds \<noteq> []" "list_all is_digit ds"
    and "rest = [] \<or> \<not> is_digit (hd rest)"
  shows "parseInt (ds @ rest) = to_Number 1 (digits_val ds)"
proof -
  from assms(1,2) obtain d ds' where ds: "ds = d # ds'" "is_digit d" by (cases ds) simp_all
  from ds not_digit_sign have nosign: "d \<noteq> CHR ''+''" "d \<noteq> CHR ''-''" by auto
  from ds have "trim_start (ds @ rest) = ds @ rest"
    by (simp add: trim_start_none white_len_digit)
  with ds nosign assms show ?thesis
    using takeWhile_digits [of ds rest] by (simp add: parseInt_def Let_def)
qed

lemma parseInt_plus:
  assumes "ds \<noteq> []" "list_all is_digit ds"
    and "rest = [] \<or> \<not> is_digit (hd rest)"
  shows "parseInt (''+'' @ ds @ rest) = to_Number 1 (digits_val ds)"
  using assms takeWhile_digits [of ds rest]
  by (simp add: parseInt_def Let_def trim_start_none white_len_sign)

lemma parseInt_minus:
  assumes "ds \<noteq> []" "list_all is_digit ds"
    and "rest = [] \<or> \<not> is_digit (hd rest)"
  shows "parseInt (''-'' @ ds @ rest) = to_Number (- 1) (digits_val ds)"
  using assms takeWhile_digits [of ds rest]
  by (simp add: parseInt_def Let_def trim_start_none white_len_sign)

lemma to_Number_exact:
  "0 < n \<Longrightarrow> n \<le> 2 ^ 53 \<Longrightarrow> to_Number sign n = Num (of_int (sign * n))"
  by (simp add: to_Number_def)

text \<open>
  When \<open>parseInt\<close> gives \<open>NaN\<close>: nothing, or something that is no digit, comes after
  the white space and the sign. A base-10 integer never gives \<open>NaN\<close>.
\<close>

lemma to_Number_not_NaN: "to_Number sign n \<noteq> NaN"
  by (simp add: to_Number_def)

lemma parseInt_NaN_iff:
  "parseInt v = NaN \<longleftrightarrow>
     (let S = trim_start v;
          S' = (if S \<noteq> [] \<and> (hd S = CHR ''+'' \<or> hd S = CHR ''-'') then tl S else S)
      in S' = [] \<or> \<not> is_digit (hd S'))"
  by (simp add: parseInt_def Let_def takeWhile_eq_Nil_iff to_Number_not_NaN)

lemma parseInt_base10_integer:
  assumes "base10_integer s"
  shows "parseInt s \<noteq> NaN"
proof -
  let ?ds = "if s \<noteq> [] \<and> (hd s = CHR ''+'' \<or> hd s = CHR ''-'') then tl s else s"
  from assms have ds: "?ds \<noteq> []" "list_all is_digit ?ds"
    by (simp_all add: base10_integer_def Let_def)
  then have d: "is_digit (hd ?ds)" by (cases ?ds) simp_all
  from assms obtain c s' where s: "s = c # s'" by (cases s) (auto simp: base10_integer_def)
  with d have "white_len s = 0"
    using white_len_sign [of s'] white_len_digit [of c s'] by (auto split: if_splits)
  then have "trim_start s = s" by (rule trim_start_none)
  with d ds show ?thesis
    by (simp add: parseInt_NaN_iff Let_def)
qed

lemma parseInt_examples:
  "parseInt ''12abc'' = Num 12" "parseInt ''1.5'' = Num 1" "parseInt '' 7'' = Num 7"
  "parseInt ''-3'' = Num (- 3)" "parseInt ''abc'' = NaN" "parseInt '''' = NaN"
  "parseInt [CHR 0xC2, CHR 0xA0, CHR ''7''] = Num 7"
  "parseInt ''-0'' = NegZero"
  "parseInt ''9007199254740993'' = Rounded 9007199254740993"
  by code_simp+

lemma getUrlParamNumber_cases:
  "getUrlParamNumber request name =
     (case map_of (req_searchParams request) name of
        None \<Rightarrow> Inl (ThrownResponse (Response_text (''Invalid or missing '' @ name) 400))
      | Some v \<Rightarrow>
          if parseInt v = NaN then Inl (ThrownResponse (Response_text (''Invalid '' @ name) 400))
          else Inr (parseInt v))"
  by (simp add: getUrlParamNumber_def getUrlParam_def isNaN_def Let_def split: option.splits)

lemma getQueryNumber_cases:
  "getQueryNumber c name =
     (case map_of (req_searchParams (ctx_req c)) name of
        None \<Rightarrow> Inl (HTTPException 400 (''Missing '' @ name))
      | Some v \<Rightarrow>
          if parseInt v = NaN then Inl (HTTPException 400 (''Invalid '' @ name))
          else Inr (parseInt v))"
  by (simp add: getQueryNumber_def getQueryString_def isNaN_def Let_def split: option.splits)

section \<open>Facts about the statuses and the bodies of the answers\<close>

text \<open>
  The statuses the two gateways can answer with, and the body of an answer of the
  application that is not 2xx: on a route of its own it is \<open>{"error": message}\<close>.
\<close>

lemma part_check_throws: "part_check p = Inl e \<Longrightarrow> e = Error ''TypeError''"
  by (cases p) (auto simp: part_check_def split: if_splits)

lemma every_part_check_throws: "every part_check ps = Inl e \<Longrightarrow> e = Error ''TypeError''"
  by (induction ps) (auto dest: part_check_throws split: sum.splits if_splits)

lemma flat_status_start_upload:
  "case fst (case_start_upload request env) of
     Inr r \<Rightarrow> status r \<in> {200, 400, 401, 404, 405, 500}
   | Inl (ThrownResponse r) \<Rightarrow> status r \<in> {200, 400, 401, 404, 405, 500}
   | Inl _ \<Rightarrow> True"
  by (simp add: case_start_upload_def checkMethod_def getUrlParam_def
      seq_defs Response_json_def Response_text_def
      split: sum.split option.split)

lemma flat_status_upload_part:
  "case fst (case_upload_part request env) of
     Inr r \<Rightarrow> status r \<in> {200, 400, 401, 404, 405, 500}
   | Inl (ThrownResponse r) \<Rightarrow> status r \<in> {200, 400, 401, 404, 405, 500}
   | Inl _ \<Rightarrow> True"
  by (simp add: case_upload_part_def checkMethod_def getUrlParam_def getUrlParamNumber_cases
      seq_defs Let_def Response_json_def Response_text_def
      split: sum.split option.split)

lemma flat_status_download:
  "case fst (case_download request env) of
     Inr r \<Rightarrow> status r \<in> {200, 400, 401, 404, 405, 500}
   | Inl (ThrownResponse r) \<Rightarrow> status r \<in> {200, 400, 401, 404, 405, 500}
   | Inl _ \<Rightarrow> True"
  by (simp add: case_download_def checkMethod_def getUrlParam_def 
      seq_defs Let_def Response_json_def Response_text_def
      split: sum.split option.split)

lemma flat_status_stats:
  "case fst (case_stats request env) of
     Inr r \<Rightarrow> status r \<in> {200, 400, 401, 404, 405, 500}
   | Inl (ThrownResponse r) \<Rightarrow> status r \<in> {200, 400, 401, 404, 405, 500}
   | Inl _ \<Rightarrow> True"
  by (simp add: case_stats_def checkMethod_def getUrlParam_def 
      seq_defs Let_def Response_json_def Response_text_def
      split: sum.split option.split)

lemma flat_status_complete_upload:
  "case fst (case_complete_upload request env) of
     Inr r \<Rightarrow> status r \<in> {200, 400, 401, 404, 405, 500}
   | Inl (ThrownResponse r) \<Rightarrow> status r \<in> {200, 400, 401, 404, 405, 500}
   | Inl _ \<Rightarrow> True"
  by (auto simp: case_complete_upload_def checkMethod_def getUrlParam_def
      seq_defs Let_def Response_json_def Response_text_def
      dest: every_part_check_throws
      split: sum.split option.split jsval.split)

lemma fetch_status_from:
  assumes "case fst (handleRequest request env) of
       Inr r \<Rightarrow> status r \<in> {200, 400, 401, 404, 405, 500}
     | Inl (ThrownResponse r) \<Rightarrow> status r \<in> {200, 400, 401, 404, 405, 500}
     | Inl _ \<Rightarrow> True"
  shows "status (fst (fetch request env)) \<in> {200, 400, 401, 404, 405, 500}"
proof (cases "handleRequest request env")
  case (Pair x cs)
  show ?thesis
  proof (cases x)
    case (Inl e)
    with Pair assms show ?thesis
      by (cases e) (simp_all add: fetch_def Response_json_def)
  next
    case (Inr r)
    with Pair assms show ?thesis by (simp add: fetch_def)
  qed
qed

lemma fetch_status:
  "status (fst (fetch request env)) \<in> {200, 400, 401, 404, 405, 500}"
proof (rule fetch_status_from)
  show "case fst (handleRequest request env) of
       Inr r \<Rightarrow> status r \<in> {200, 400, 401, 404, 405, 500}
     | Inl (ThrownResponse r) \<Rightarrow> status r \<in> {200, 400, 401, 404, 405, 500}
     | Inl _ \<Rightarrow> True"
    unfolding handleRequest_def Let_def
    by (simp add: flat_status_start_upload flat_status_upload_part flat_status_complete_upload
        flat_status_download flat_status_stats throw_def Response_json_def
        split: option.split)
qed

lemma app_status_create:
  "case fst (post_uploads_create c) of
     Inr r \<Rightarrow> status r \<in> {200, 204, 400, 404, 500}
   | Inl (HTTPException st msg) \<Rightarrow> st \<in> {200, 204, 400, 404, 500}
   | Inl _ \<Rightarrow> True"
  by (simp add: post_uploads_create_def getQueryString_def
      seq_defs Let_def Response_json_def split: sum.split option.split)

lemma app_status_upload_part:
  "case fst (post_uploads_upload_part c) of
     Inr r \<Rightarrow> status r \<in> {200, 204, 400, 404, 500}
   | Inl (HTTPException st msg) \<Rightarrow> st \<in> {200, 204, 400, 404, 500}
   | Inl _ \<Rightarrow> True"
  by (simp add: post_uploads_upload_part_def getQueryString_def getQueryNumber_cases
      seq_defs Let_def Response_json_def split: sum.split option.split)

lemma app_status_complete:
  "case fst (post_uploads_complete c) of
     Inr r \<Rightarrow> status r \<in> {200, 204, 400, 404, 500}
   | Inl (HTTPException st msg) \<Rightarrow> st \<in> {200, 204, 400, 404, 500}
   | Inl _ \<Rightarrow> True"
  by (auto simp: post_uploads_complete_def getQueryString_def
      seq_defs Let_def Response_json_def dest: every_part_check_throws
      split: sum.split option.split jsval.split)

lemma app_status_objects:
  "case fst (get_objects c) of
     Inr r \<Rightarrow> status r \<in> {200, 204, 400, 404, 500}
   | Inl (HTTPException st msg) \<Rightarrow> st \<in> {200, 204, 400, 404, 500}
   | Inl _ \<Rightarrow> True"
  "case fst (get_objects_key c) of
     Inr r \<Rightarrow> status r \<in> {200, 204, 400, 404, 500}
   | Inl (HTTPException st msg) \<Rightarrow> st \<in> {200, 204, 400, 404, 500}
   | Inl _ \<Rightarrow> True"
  "case fst (get_objects_key_stats c) of
     Inr r \<Rightarrow> status r \<in> {200, 204, 400, 404, 500}
   | Inl (HTTPException st msg) \<Rightarrow> st \<in> {200, 204, 400, 404, 500}
   | Inl _ \<Rightarrow> True"
  "case fst (delete_objects_key c) of
     Inr r \<Rightarrow> status r \<in> {200, 204, 400, 404, 500}
   | Inl (HTTPException st msg) \<Rightarrow> st \<in> {200, 204, 400, 404, 500}
   | Inl _ \<Rightarrow> True"
  by (simp_all add: get_objects_def get_objects_key_def get_objects_key_stats_def
      delete_objects_key_def getPathString_def
      seq_defs Let_def Response_json_def split: sum.split option.split)

lemma onError_status_from:
  assumes "case fst r of
       Inr res \<Rightarrow> status res \<in> {200, 204, 400, 404, 500}
     | Inl (HTTPException st msg) \<Rightarrow> st \<in> {200, 204, 400, 404, 500}
     | Inl _ \<Rightarrow> True"
  shows "status (fst (onError r)) \<in> {200, 204, 400, 404, 500}"
proof (cases r)
  case (Pair x cs)
  show ?thesis
  proof (cases x)
    case (Inl e)
    with Pair assms show ?thesis
      by (cases e) (simp_all add: onError_def Response_json_def)
  next
    case (Inr res)
    with Pair assms show ?thesis by (simp add: onError_def)
  qed
qed

lemma dispatch_status:
  "status (fst (dispatch fw m request env)) \<in> {200, 204, 400, 404, 500}"
proof (cases "router_match fw m (getPath fw request)")
  case None
  then show ?thesis
    by (simp add: dispatch_def middleware_def Let_def onError_def return_def notFound_def
        Response_json_def Response_text_def)
next
  case (Some hp)
  obtain h ps where hp: "hp = (h, ps)" by (cases hp)
  let ?c = "\<lparr>ctx_req = request, ctx_env = env, ctx_param = ps\<rparr>"
  have "case fst (h ?c) of
       Inr res \<Rightarrow> status res \<in> {200, 204, 400, 404, 500}
     | Inl (HTTPException st msg) \<Rightarrow> st \<in> {200, 204, 400, 404, 500}
     | Inl _ \<Rightarrow> True"
    using router_match_cases [OF Some [unfolded hp]]
      app_status_create [of ?c] app_status_upload_part [of ?c] app_status_complete [of ?c]
      app_status_objects [of ?c]
    by (elim insertE emptyE) simp_all
  then have "status (fst (onError (h ?c))) \<in> {200, 204, 400, 404, 500}"
    by (rule onError_status_from)
  with Some hp show ?thesis
    by (simp add: dispatch_def middleware_def Let_def onError_def return_def Response_json_def)
qed

lemma app_status:
  "status (fst (app fw request env)) \<in> {200, 204, 400, 404, 500}"
  using dispatch_status [of fw "''GET''" request env]
    dispatch_status [of fw "req_method request" request env]
  by (simp add: app_def Let_def)

lemma app_handlers_return_2xx:
  "fst (post_uploads_create c) = Inr r \<Longrightarrow> status r = 200"
  "fst (post_uploads_upload_part c) = Inr r \<Longrightarrow> status r = 200"
  "fst (post_uploads_complete c) = Inr r \<Longrightarrow> status r = 200"
  "fst (get_objects c) = Inr r \<Longrightarrow> status r = 200"
  "fst (get_objects_key c) = Inr r \<Longrightarrow> status r = 200"
  "fst (get_objects_key_stats c) = Inr r \<Longrightarrow> status r = 200"
  "fst (delete_objects_key c) = Inr r \<Longrightarrow> status r = 204"
  by (auto simp: post_uploads_create_def post_uploads_upload_part_def post_uploads_complete_def
      get_objects_def get_objects_key_def get_objects_key_stats_def delete_objects_key_def
      seq_defs Let_def Response_json_def
      split: sum.splits option.splits jsval.splits if_splits)

lemma onError_error_body:
  assumes "\<And>res. fst r = Inr res \<Longrightarrow> status res \<in> {200, 204}"
    and "status (fst (onError r)) \<notin> {200, 204}"
  shows "\<exists>msg. body (fst (onError r)) = JsonBody (error_obj msg)"
proof (cases r)
  case (Pair x cs)
  show ?thesis
  proof (cases x)
    case (Inl e)
    with Pair show ?thesis
      by (cases e) (auto simp: onError_def Response_json_def)
  next
    case (Inr res)
    with Pair assms show ?thesis by (simp add: onError_def)
  qed
qed

lemma dispatch_error_body:
  assumes "router_match fw m (getPath fw request) \<noteq> None"
    and "status (fst (dispatch fw m request env)) \<notin> {200, 204}"
  shows "\<exists>msg. body (fst (dispatch fw m request env)) = JsonBody (error_obj msg)"
proof -
  from assms(1) obtain h ps where m: "router_match fw m (getPath fw request) = Some (h, ps)"
    by auto
  let ?c = "\<lparr>ctx_req = request, ctx_env = env, ctx_param = ps\<rparr>"
  show ?thesis
  proof (cases "BUCKET env = None \<or> AUTH_KEY env = None")
    case True
    then show ?thesis
      by (auto simp: dispatch_def middleware_def Let_def onError_def return_def Response_json_def)
  next
    case False
    with m have run: "dispatch fw m request env = onError (h ?c)"
      by (simp add: dispatch_route)
    have ok: "\<And>res. fst (h ?c) = Inr res \<Longrightarrow> status res \<in> {200, 204}"
      using router_match_cases [OF m] by (auto dest: app_handlers_return_2xx)
    from assms(2) show ?thesis
      unfolding run by (intro onError_error_body ok)
  qed
qed

lemma app_error_body:
  assumes "req_method request \<noteq> ''HEAD''"
    and "router_match fw (req_method request) (getPath fw request) \<noteq> None"
    and "status (fst (app fw request env)) \<notin> {200, 204}"
  shows "\<exists>msg. body (fst (app fw request env)) = JsonBody (error_obj msg)"
  using assms dispatch_error_body [of fw "req_method request" request env]
  by (simp add: app_not_HEAD)

section \<open>Steps determined by the replies of the bucket\<close>

lemma with_bucket_Some: "with_bucket (env\<lparr>BUCKET := Some b\<rparr>) f = f b"
  by (simp add: with_bucket_def)

lemma determined_const: "determined (\<lambda>b. k)"
  by (simp add: determined_def)

lemma determined_try_pure:
  "(\<And>v. determined (f v)) \<Longrightarrow> determined (\<lambda>b. try_pure r (\<lambda>v. f v b))"
  by (cases r) (simp_all add: determined_def try_pure_def)

lemma determined_called:
  assumes "determined f"
  shows "determined (\<lambda>b. called c (f b))"
  unfolding determined_def
proof (intro allI impI)
  fix b1 b2
  assume "same_replies b1 b2 (snd (called c (f b1)))"
  then have "same_replies b1 b2 (snd (f b1))"
    by (simp add: called_def same_replies_def)
  with assms have "f b2 = f b1"
    by (simp add: determined_def)
  then show "called c (f b2) = called c (f b1)"
    by (simp add: called_def)
qed

lemma determined_await:
  assumes "\<And>b1 b2. reply_of b1 c = reply_of b2 c \<Longrightarrow> r b2 = r b1"
    and "\<And>v. determined (g v)"
  shows "determined (\<lambda>b. await c (r b) (\<lambda>v. g v b))"
  unfolding determined_def
proof (intro allI impI)
  fix b1 b2
  assume same: "same_replies b1 b2 (snd (await c (r b1) (\<lambda>v. g v b1)))"
  then have r: "r b2 = r b1"
    using assms(1) [of b1 b2] by (simp add: await_def called_def same_replies_def)
  show "await c (r b2) (\<lambda>v. g v b2) = await c (r b1) (\<lambda>v. g v b1)"
  proof (cases "r b1")
    case (Inl e)
    with r show ?thesis by (simp add: await_def called_def try_pure_def rejected_def)
  next
    case (Inr v)
    with same have "same_replies b1 b2 (snd (g v b1))"
      by (simp add: await_def called_def try_pure_def rejected_def same_replies_def)
    with assms(2) [of v] have "g v b2 = g v b1"
      by (simp add: determined_def)
    with r Inr show ?thesis by (simp add: await_def called_def try_pure_def rejected_def)
  qed
qed

lemma determined_if:
  "determined f \<Longrightarrow> determined g \<Longrightarrow> determined (\<lambda>b. if c then f b else g b)"
  by (simp add: determined_def)

lemma determined_case_option:
  "determined f \<Longrightarrow> (\<And>x. determined (g x)) \<Longrightarrow>
   determined (\<lambda>b. case x of None \<Rightarrow> f b | Some y \<Rightarrow> g y b)"
  by (cases x) simp_all

lemma determined_case_jsval:
  "determined f1 \<Longrightarrow> (\<And>x. determined (f2 x)) \<Longrightarrow> (\<And>x. determined (f3 x)) \<Longrightarrow>
   (\<And>x. determined (f4 x)) \<Longrightarrow> (\<And>x. determined (f5 x)) \<Longrightarrow> (\<And>x. determined (f6 x)) \<Longrightarrow>
   determined (\<lambda>b. case v of JNull \<Rightarrow> f1 b | JBool x \<Rightarrow> f2 x b | JNum x \<Rightarrow> f3 x b
      | JStr x \<Rightarrow> f4 x b | JArr x \<Rightarrow> f5 x b | JObj x \<Rightarrow> f6 x b)"
  by (cases v) simp_all

lemmas determined_rules =
  determined_try_pure determined_called determined_await determined_if
  determined_case_option determined_case_jsval determined_const

lemma flat_cases_determined:
  "determined (\<lambda>b. case_start_upload request (env\<lparr>BUCKET := Some b\<rparr>))"
  "determined (\<lambda>b. case_upload_part request (env\<lparr>BUCKET := Some b\<rparr>))"
  "determined (\<lambda>b. case_complete_upload request (env\<lparr>BUCKET := Some b\<rparr>))"
  "determined (\<lambda>b. case_download request (env\<lparr>BUCKET := Some b\<rparr>))"
  "determined (\<lambda>b. case_stats request (env\<lparr>BUCKET := Some b\<rparr>))"
  unfolding case_start_upload_def case_upload_part_def case_complete_upload_def
    case_download_def case_stats_def with_bucket_Some Let_def return_def throw_def
  by (intro determined_rules; simp)+

lemma AUTH_KEY_BUCKET_update: "AUTH_KEY (env\<lparr>BUCKET := x\<rparr>) = AUTH_KEY env"
  by simp

lemma handleRequest_determined:
  "determined (\<lambda>b. handleRequest request (env\<lparr>BUCKET := Some b\<rparr>))"
  unfolding handleRequest_def Let_def throw_def AUTH_KEY_BUCKET_update
  by (intro determined_if determined_case_option determined_const flat_cases_determined)

lemma app_handlers_determined:
  "determined (\<lambda>b. post_uploads_create
     \<lparr>ctx_req = request, ctx_env = env\<lparr>BUCKET := Some b\<rparr>, ctx_param = ps\<rparr>)"
  "determined (\<lambda>b. post_uploads_upload_part
     \<lparr>ctx_req = request, ctx_env = env\<lparr>BUCKET := Some b\<rparr>, ctx_param = ps\<rparr>)"
  "determined (\<lambda>b. post_uploads_complete
     \<lparr>ctx_req = request, ctx_env = env\<lparr>BUCKET := Some b\<rparr>, ctx_param = ps\<rparr>)"
  "determined (\<lambda>b. get_objects
     \<lparr>ctx_req = request, ctx_env = env\<lparr>BUCKET := Some b\<rparr>, ctx_param = ps\<rparr>)"
  "determined (\<lambda>b. get_objects_key
     \<lparr>ctx_req = request, ctx_env = env\<lparr>BUCKET := Some b\<rparr>, ctx_param = ps\<rparr>)"
  "determined (\<lambda>b. get_objects_key_stats
     \<lparr>ctx_req = request, ctx_env = env\<lparr>BUCKET := Some b\<rparr>, ctx_param = ps\<rparr>)"
  "determined (\<lambda>b. delete_objects_key
     \<lparr>ctx_req = request, ctx_env = env\<lparr>BUCKET := Some b\<rparr>, ctx_param = ps\<rparr>)"
  unfolding post_uploads_create_def post_uploads_upload_part_def post_uploads_complete_def
    get_objects_def get_objects_key_def get_objects_key_stats_def delete_objects_key_def
    getQueryString_def getQueryNumber_def getPathString_def Context.select_convs
    with_bucket_Some Let_def return_def throw_def
  by (intro determined_rules; simp)+

lemma dispatch_determined:
  assumes "same_replies b1 b2 (snd (dispatch fw m request (env\<lparr>BUCKET := Some b1\<rparr>)))"
  shows "dispatch fw m request (env\<lparr>BUCKET := Some b2\<rparr>)
       = dispatch fw m request (env\<lparr>BUCKET := Some b1\<rparr>)"
proof (cases "router_match fw m (getPath fw request)")
  case None
  then show ?thesis by (simp add: dispatch_def middleware_def Let_def)
next
  case (Some hp)
  obtain h ps where hp: "hp = (h, ps)" by (cases hp)
  show ?thesis
  proof (cases "AUTH_KEY env = None")
    case True
    then show ?thesis by (simp add: dispatch_def middleware_def Let_def)
  next
    case False
    let ?run = "\<lambda>b. h \<lparr>ctx_req = request, ctx_env = env\<lparr>BUCKET := Some b\<rparr>, ctx_param = ps\<rparr>"
    from assms Some hp False have "same_replies b1 b2 (snd (?run b1))"
      by (auto simp: dispatch_def middleware_def Let_def onError_calls)
    moreover have "determined ?run"
      using router_match_cases [OF Some [unfolded hp]] app_handlers_determined
      by auto
    ultimately have "?run b2 = ?run b1"
      by (simp add: determined_def)
    with Some hp False show ?thesis
      by (auto simp: dispatch_def middleware_def Let_def)
  qed
qed

section \<open>The answer and the replies of the bucket\<close>

text \<open>
  A gateway reads the bucket only through the replies to the calls it makes: with the
  same request and the same secret, two buckets that answer those calls alike get the
  same response and the same calls.
\<close>

lemma replies_determine_answer:
  "(same_replies b1 b2 (snd (fetch request (env\<lparr>BUCKET := Some b1\<rparr>))) \<longrightarrow>
      fetch request (env\<lparr>BUCKET := Some b2\<rparr>) = fetch request (env\<lparr>BUCKET := Some b1\<rparr>))
   \<and> (same_replies b1 b2 (snd (app fw request (env\<lparr>BUCKET := Some b1\<rparr>))) \<longrightarrow>
      app fw request (env\<lparr>BUCKET := Some b2\<rparr>) = app fw request (env\<lparr>BUCKET := Some b1\<rparr>))"
proof (intro conjI impI)
  assume "same_replies b1 b2 (snd (fetch request (env\<lparr>BUCKET := Some b1\<rparr>)))"
  then have "handleRequest request (env\<lparr>BUCKET := Some b2\<rparr>)
      = handleRequest request (env\<lparr>BUCKET := Some b1\<rparr>)"
    using handleRequest_determined [of request env]
    by (simp add: fetch_calls determined_def)
  then show "fetch request (env\<lparr>BUCKET := Some b2\<rparr>) = fetch request (env\<lparr>BUCKET := Some b1\<rparr>)"
    by (simp add: fetch_def)
next
  assume "same_replies b1 b2 (snd (app fw request (env\<lparr>BUCKET := Some b1\<rparr>)))"
  then show "app fw request (env\<lparr>BUCKET := Some b2\<rparr>) = app fw request (env\<lparr>BUCKET := Some b1\<rparr>)"
    by (simp add: app_def Let_def dispatch_determined split: if_splits)
qed

section \<open>C1: requests without the secret\<close>

text \<open>
  Claim C1. A request whose Authorization header is absent or differs from the
  configured secret is answered 401 \<open>{"error": "Unauthorized"}\<close>, whatever its path
  and method, and no call is made on the backing store. The flat worker does so
  (\<open>fetch_unauthorized\<close>). The application checks only that the secret is configured
  and never reads the header (\<open>app_ignores_Authorization\<close>): run on a \<open>DELETE\<close> without
  any Authorization header, it calls \<open>delete\<close> on the bucket and answers 204.
\<close>

theorem app_unauthenticated_delete:
  "app fw (anonymous_request ''DELETE'' ''/objects/a.txt'' [] None None) test_env =
     (\<lparr>status = 204, headers = [], body = NoBody\<rparr>, [Delete ''a.txt''])"
  by (simp add: app_def dispatch_def middleware_def router_match_def anonymous_request_def
      getPath_def getDecodedParam_def
      test_env_def empty_bucket_def delete_objects_key_def getPathString_def onError_def
      seq_defs)

section \<open>C2: a complete-upload request with an empty parts array\<close>

text \<open>
  Claim C2. A complete-upload request whose JSON body is the empty array is answered
  400, and the \<open>complete\<close> operation of the backing store is not called for it. No
  gateway calls \<open>complete\<close> for any request with that body; a request that reaches the
  complete-upload handler is answered 400 without any call, and with
  \<open>{"error": "No parts"}\<close> when \<open>key\<close> and \<open>uploadId\<close> are given.
\<close>

theorem complete_upload_empty_parts:
  assumes "req_json request = Some (JArr [])"
  shows "filter is_Complete (snd (fetch request env)) = []
    \<and> filter is_Complete (snd (app fw request env)) = []
    \<and> (firstPath request = Some ''complete-upload'' \<and> req_method request = ''POST''
        \<and> req_Authorization request = Some a \<and> AUTH_KEY env = Some a \<longrightarrow>
        status (fst (fetch request env)) = 400 \<and> snd (fetch request env) = [])
    \<and> (req_pathname request = ''/uploads/complete'' \<and> req_method request = ''POST''
        \<and> BUCKET env \<noteq> None \<and> AUTH_KEY env \<noteq> None \<longrightarrow>
        status (fst (app fw request env)) = 400 \<and> snd (app fw request env) = [])
    \<and> (firstPath request = Some ''complete-upload'' \<and> req_method request = ''POST''
        \<and> req_Authorization request = Some a \<and> AUTH_KEY env = Some a
        \<and> map_of (req_searchParams request) ''key'' \<noteq> None
        \<and> map_of (req_searchParams request) ''uploadId'' \<noteq> None \<longrightarrow>
        fetch request env = (Response_json (error_obj ''No parts'') 400, []))
    \<and> (req_pathname request = ''/uploads/complete'' \<and> req_method request = ''POST''
        \<and> BUCKET env \<noteq> None \<and> AUTH_KEY env \<noteq> None
        \<and> map_of (req_searchParams request) ''key'' \<noteq> None
        \<and> map_of (req_searchParams request) ''uploadId'' \<noteq> None \<longrightarrow>
        app fw request env = (Response_json (error_obj ''No parts'') 400, []))"
proof (intro conjI impI)
  show "filter is_Complete (snd (fetch request env)) = []"
    using assms by (simp add: fetch_calls handleRequest_empty_parts)
  show "filter is_Complete (snd (app fw request env)) = []"
    using assms by (simp add: app_def Let_def dispatch_empty_parts)
next
  assume h: "firstPath request = Some ''complete-upload'' \<and> req_method request = ''POST''
        \<and> req_Authorization request = Some a \<and> AUTH_KEY env = Some a"
  with assms show "status (fst (fetch request env)) = 400"
    by (simp add: fetch_def handleRequest_authorized case_complete_upload_def checkMethod_def
        getUrlParam_def seq_defs Response_json_def Response_text_def split: option.splits)
  from h assms show "snd (fetch request env) = []"
    by (simp add: fetch_calls handleRequest_authorized case_complete_upload_def checkMethod_def
        getUrlParam_def seq_defs split: option.splits)
next
  assume h: "req_pathname request = ''/uploads/complete'' \<and> req_method request = ''POST''
        \<and> BUCKET env \<noteq> None \<and> AUTH_KEY env \<noteq> None"
  with assms show "status (fst (app fw request env)) = 400"
    by (simp add: app_post_uploads post_uploads_complete_def onError_def getQueryString_def
        seq_defs Response_json_def split: option.splits)
  from h assms show "snd (app fw request env) = []"
    by (simp add: app_post_uploads post_uploads_complete_def onError_calls getQueryString_def
        seq_defs split: option.splits)
next
  assume "firstPath request = Some ''complete-upload'' \<and> req_method request = ''POST''
        \<and> req_Authorization request = Some a \<and> AUTH_KEY env = Some a
        \<and> map_of (req_searchParams request) ''key'' \<noteq> None
        \<and> map_of (req_searchParams request) ''uploadId'' \<noteq> None"
  with assms show "fetch request env = (Response_json (error_obj ''No parts'') 400, [])"
    by (auto simp: fetch_def handleRequest_authorized case_complete_upload_def checkMethod_def
        getUrlParam_def seq_defs)
next
  assume "req_pathname request = ''/uploads/complete'' \<and> req_method request = ''POST''
        \<and> BUCKET env \<noteq> None \<and> AUTH_KEY env \<noteq> None
        \<and> map_of (req_searchParams request) ''key'' \<noteq> None
        \<and> map_of (req_searchParams request) ''uploadId'' \<noteq> None"
  with assms show "app fw request env = (Response_json (error_obj ''No parts'') 400, [])"
    by (auto simp: app_post_uploads post_uploads_complete_def onError_def getQueryString_def
        seq_defs)
qed

theorem complete_upload_empty_parts_witness:
  "fetch (flat_request ''POST'' ''/complete-upload''
       [(''key'', ''a.txt''), (''uploadId'', ''U1'')] (Some ''[]'') (Some (JArr []))) test_env
     = (Response_json (error_obj ''No parts'') 400, [])
   \<and> app plain_framework (anonymous_request ''POST'' ''/uploads/complete''
       [(''key'', ''a.txt''), (''uploadId'', ''U1'')] (Some ''[]'') (Some (JArr []))) test_env
     = (Response_json (error_obj ''No parts'') 400, [])"
  using complete_upload_empty_parts [where request = "flat_request ''POST'' ''/complete-upload''
       [(''key'', ''a.txt''), (''uploadId'', ''U1'')] (Some ''[]'') (Some (JArr []))"
       and env = test_env and a = "''secret''"]
    complete_upload_empty_parts [where request = "anonymous_request ''POST'' ''/uploads/complete''
       [(''key'', ''a.txt''), (''uploadId'', ''U1'')] (Some ''[]'') (Some (JArr []))"
       and env = test_env and fw = plain_framework]
  by (simp add: flat_request_def anonymous_request_def test_env_def firstPath_def at_idx_def)

section \<open>C3: an upload-part request without a body\<close>

text \<open>
  Claim C3. An upload-part request with no request body is answered 400 and makes no
  call on the backing store, neither resume nor upload-part. In the flat worker no
  call is made on the path \<open>upload-part\<close> without a body whatever the method and the
  credential are; an authorized \<open>POST\<close> is answered 400 \<open>{"error": "No body"}\<close>. The
  application answers \<open>POST /uploads/upload-part\<close> the same way.
\<close>

theorem upload_part_no_body:
  assumes "req_body request = None"
  shows "(firstPath request = Some ''upload-part'' \<longrightarrow> snd (fetch request env) = [])
    \<and> (firstPath request = Some ''upload-part'' \<and> req_method request = ''POST''
        \<and> req_Authorization request = Some a \<and> AUTH_KEY env = Some a \<longrightarrow>
        fetch request env = (Response_json (error_obj ''No body'') 400, []))
    \<and> (req_pathname request = ''/uploads/upload-part'' \<and> req_method request = ''POST''
        \<and> BUCKET env \<noteq> None \<and> AUTH_KEY env \<noteq> None \<longrightarrow>
        app fw request env = (Response_json (error_obj ''No body'') 400, []))"
proof (intro conjI impI)
  assume "firstPath request = Some ''upload-part''"
  with assms show "snd (fetch request env) = []"
    by (auto simp: fetch_calls handleRequest_def Let_def case_upload_part_def checkMethod_def seq_defs)
next
  assume "firstPath request = Some ''upload-part'' \<and> req_method request = ''POST''
        \<and> req_Authorization request = Some a \<and> AUTH_KEY env = Some a"
  with assms show "fetch request env = (Response_json (error_obj ''No body'') 400, [])"
    by (simp add: fetch_def handleRequest_authorized case_upload_part_def checkMethod_def seq_defs)
next
  assume "req_pathname request = ''/uploads/upload-part'' \<and> req_method request = ''POST''
        \<and> BUCKET env \<noteq> None \<and> AUTH_KEY env \<noteq> None"
  with assms show "app fw request env = (Response_json (error_obj ''No body'') 400, [])"
    by (simp add: app_post_uploads post_uploads_upload_part_def onError_def seq_defs)
qed

theorem upload_part_no_body_witness:
  "fetch (flat_request ''POST'' ''/upload-part''
       [(''key'', ''a.txt''), (''uploadId'', ''U1''), (''partNumber'', ''1'')] None None) test_env
     = (Response_json (error_obj ''No body'') 400, [])
   \<and> app plain_framework (anonymous_request ''POST'' ''/uploads/upload-part''
       [(''key'', ''a.txt''), (''uploadId'', ''U1''), (''partNumber'', ''1'')] None None) test_env
     = (Response_json (error_obj ''No body'') 400, [])"
  using upload_part_no_body [where request = "flat_request ''POST'' ''/upload-part''
       [(''key'', ''a.txt''), (''uploadId'', ''U1''), (''partNumber'', ''1'')] None None"
       and env = test_env and a = "''secret''"]
    upload_part_no_body [where request = "anonymous_request ''POST'' ''/uploads/upload-part''
       [(''key'', ''a.txt''), (''uploadId'', ''U1''), (''partNumber'', ''1'')] None None"
       and env = test_env and fw = plain_framework]
  by (simp add: flat_request_def anonymous_request_def test_env_def firstPath_def at_idx_def)

section \<open>C4: the key of a start-upload request\<close>

text \<open>
  Claim C4, as stated: the create call is made only after the key was validated to be
  a non-empty string, and a start-upload request whose key is absent or empty is
  rejected without any call. It fails for the empty key: both gateways test only that
  the parameter is present, and \<open>?key=\<close> is passed on to \<open>createMultipartUpload\<close>.
\<close>

theorem start_upload_empty_key_counterexample:
  "map_of [(''key'', '''')] ''key'' = Some ''''
   \<and> fetch (flat_request ''POST'' ''/start-upload'' [(''key'', '''')] None None) test_env =
     (Response_json (JObj [(''key'', JStr ''''), (''uploadId'', JStr ''U1'')]) 200,
      [CreateMultipartUpload ''''])
   \<and> app plain_framework (anonymous_request ''POST'' ''/uploads/create'' [(''key'', '''')] None None) test_env =
     (Response_json (JObj [(''key'', JStr ''''), (''uploadId'', JStr ''U1'')]) 200,
      [CreateMultipartUpload ''''])"
  by (simp add: fetch_def handleRequest_def firstPath_def at_idx_def flat_request_def
      test_env_def empty_bucket_def case_start_upload_def checkMethod_def getUrlParam_def
      app_post_uploads anonymous_request_def post_uploads_create_def
      getQueryString_def onError_def seq_defs)

text \<open>Where the create call can come from.\<close>

lemma flat_cases_Create:
  "CreateMultipartUpload k \<in> set (snd (case_start_upload request env)) \<Longrightarrow>
     map_of (req_searchParams request) ''key'' = Some k"
  "CreateMultipartUpload k \<notin> set (snd (case_upload_part request env))"
  "CreateMultipartUpload k \<notin> set (snd (case_complete_upload request env))"
  "CreateMultipartUpload k \<notin> set (snd (case_download request env))"
  "CreateMultipartUpload k \<notin> set (snd (case_stats request env))"
  by (auto simp: case_start_upload_def case_upload_part_def case_complete_upload_def
      case_download_def case_stats_def getUrlParam_def
      seq_defs Let_def split: sum.splits option.splits jsval.splits if_splits)

lemma handleRequest_Create:
  "CreateMultipartUpload k \<in> set (snd (handleRequest request env)) \<Longrightarrow>
     map_of (req_searchParams request) ''key'' = Some k"
  by (auto simp: handleRequest_def Let_def throw_def flat_cases_Create
      split: option.splits if_splits)

lemma app_handlers_Create:
  "CreateMultipartUpload k \<in> set (snd (post_uploads_create c)) \<Longrightarrow>
     map_of (req_searchParams (ctx_req c)) ''key'' = Some k"
  "CreateMultipartUpload k \<notin> set (snd (post_uploads_upload_part c))"
  "CreateMultipartUpload k \<notin> set (snd (post_uploads_complete c))"
  "CreateMultipartUpload k \<notin> set (snd (get_objects c))"
  "CreateMultipartUpload k \<notin> set (snd (get_objects_key c))"
  "CreateMultipartUpload k \<notin> set (snd (get_objects_key_stats c))"
  "CreateMultipartUpload k \<notin> set (snd (delete_objects_key c))"
  by (auto simp: post_uploads_create_def post_uploads_upload_part_def post_uploads_complete_def
      get_objects_def get_objects_key_def get_objects_key_stats_def delete_objects_key_def
      getQueryString_def
      seq_defs Let_def split: sum.splits option.splits jsval.splits if_splits)

lemma dispatch_Create:
  assumes "CreateMultipartUpload k \<in> set (snd (dispatch fw m request env))"
  shows "map_of (req_searchParams request) ''key'' = Some k"
proof (cases "router_match fw m (getPath fw request)")
  case None
  with assms show ?thesis
    by (simp add: dispatch_def onError_calls middleware_def Let_def return_def split: if_splits)
next
  case (Some hp)
  obtain h ps where hp: "hp = (h, ps)" by (cases hp)
  from assms Some hp
  have "CreateMultipartUpload k \<in> set (snd (h \<lparr>ctx_req = request, ctx_env = env, ctx_param = ps\<rparr>))"
    by (simp add: dispatch_def onError_calls middleware_def Let_def return_def split: if_splits)
  with router_match_cases [OF Some [unfolded hp]] show ?thesis
    by (auto simp: app_handlers_Create dest: app_handlers_Create(1))
qed

text \<open>
  Claim C4, amended. A gateway calls \<open>createMultipartUpload\<close> only with the value of
  a \<open>key\<close> query parameter that is present. A start-upload request without the
  parameter is rejected with 400 and no call is made; one with the parameter, empty or
  not, makes exactly the create call with that value.
\<close>

theorem start_upload_key_present:
  "(CreateMultipartUpload k \<in> set (snd (fetch request env)) \<longrightarrow>
      map_of (req_searchParams request) ''key'' = Some k)
   \<and> (CreateMultipartUpload k \<in> set (snd (app fw request env)) \<longrightarrow>
      map_of (req_searchParams request) ''key'' = Some k)
   \<and> (firstPath request = Some ''start-upload'' \<and> req_method request = ''POST''
       \<and> req_Authorization request = Some a \<and> AUTH_KEY env = Some a
       \<and> map_of (req_searchParams request) ''key'' = None \<longrightarrow>
       fetch request env = (Response_text ''Invalid or missing key'' 400, []))
   \<and> (req_pathname request = ''/uploads/create'' \<and> req_method request = ''POST''
       \<and> BUCKET env \<noteq> None \<and> AUTH_KEY env \<noteq> None
       \<and> map_of (req_searchParams request) ''key'' = None \<longrightarrow>
       app fw request env = (Response_json (error_obj ''Missing key'') 400, []))
   \<and> (firstPath request = Some ''start-upload'' \<and> req_method request = ''POST''
       \<and> req_Authorization request = Some a \<and> AUTH_KEY env = Some a \<and> BUCKET env \<noteq> None
       \<and> map_of (req_searchParams request) ''key'' = Some key \<longrightarrow>
       snd (fetch request env) = [CreateMultipartUpload key])
   \<and> (req_pathname request = ''/uploads/create'' \<and> req_method request = ''POST''
       \<and> BUCKET env \<noteq> None \<and> AUTH_KEY env \<noteq> None
       \<and> map_of (req_searchParams request) ''key'' = Some key \<longrightarrow>
       snd (app fw request env) = [CreateMultipartUpload key])"
proof (intro conjI impI)
  assume "CreateMultipartUpload k \<in> set (snd (fetch request env))"
  then show "map_of (req_searchParams request) ''key'' = Some k"
    by (simp add: fetch_calls handleRequest_Create)
next
  assume "CreateMultipartUpload k \<in> set (snd (app fw request env))"
  then show "map_of (req_searchParams request) ''key'' = Some k"
    by (auto simp: app_def Let_def dest: dispatch_Create split: if_splits)
next
  assume "firstPath request = Some ''start-upload'' \<and> req_method request = ''POST''
       \<and> req_Authorization request = Some a \<and> AUTH_KEY env = Some a
       \<and> map_of (req_searchParams request) ''key'' = None"
  then show "fetch request env = (Response_text ''Invalid or missing key'' 400, [])"
    by (simp add: fetch_def handleRequest_authorized case_start_upload_def checkMethod_def
        getUrlParam_def seq_defs)
next
  assume "req_pathname request = ''/uploads/create'' \<and> req_method request = ''POST''
       \<and> BUCKET env \<noteq> None \<and> AUTH_KEY env \<noteq> None
       \<and> map_of (req_searchParams request) ''key'' = None"
  then show "app fw request env = (Response_json (error_obj ''Missing key'') 400, [])"
    by (simp add: app_post_uploads post_uploads_create_def getQueryString_def onError_def
        seq_defs)
next
  assume "firstPath request = Some ''start-upload'' \<and> req_method request = ''POST''
       \<and> req_Authorization request = Some a \<and> AUTH_KEY env = Some a \<and> BUCKET env \<noteq> None
       \<and> map_of (req_searchParams request) ''key'' = Some key"
  then show "snd (fetch request env) = [CreateMultipartUpload key]"
    by (auto simp: fetch_calls handleRequest_authorized case_start_upload_def checkMethod_def
        getUrlParam_def seq_defs split: sum.splits)
next
  assume "req_pathname request = ''/uploads/create'' \<and> req_method request = ''POST''
       \<and> BUCKET env \<noteq> None \<and> AUTH_KEY env \<noteq> None
       \<and> map_of (req_searchParams request) ''key'' = Some key"
  then show "snd (app fw request env) = [CreateMultipartUpload key]"
    by (auto simp: app_post_uploads post_uploads_create_def getQueryString_def onError_calls
        seq_defs split: sum.splits)
qed

theorem start_upload_key_present_witness:
  "fetch (flat_request ''POST'' ''/start-upload'' [] None None) test_env
     = (Response_text ''Invalid or missing key'' 400, [])
   \<and> app plain_framework (anonymous_request ''POST'' ''/uploads/create'' [] None None) test_env
     = (Response_json (error_obj ''Missing key'') 400, [])
   \<and> snd (fetch (flat_request ''POST'' ''/start-upload'' [(''key'', ''a.txt'')] None None) test_env)
     = [CreateMultipartUpload ''a.txt'']
   \<and> snd (app plain_framework (anonymous_request ''POST'' ''/uploads/create'' [(''key'', ''a.txt'')] None None) test_env)
     = [CreateMultipartUpload ''a.txt'']"
  using start_upload_key_present [where
        request = "flat_request ''POST'' ''/start-upload'' [] None None"
        and env = test_env and a = "''secret''"]
    start_upload_key_present [where
        request = "anonymous_request ''POST'' ''/uploads/create'' [] None None"
        and env = test_env and fw = plain_framework]
    start_upload_key_present [where
        request = "flat_request ''POST'' ''/start-upload'' [(''key'', ''a.txt'')] None None"
        and env = test_env and a = "''secret''" and key = "''a.txt''"]
    start_upload_key_present [where
        request = "anonymous_request ''POST'' ''/uploads/create'' [(''key'', ''a.txt'')] None None"
        and env = test_env and fw = plain_framework and key = "''a.txt''"]
  by (simp add: flat_request_def anonymous_request_def test_env_def firstPath_def at_idx_def)

section \<open>C5: the body of an error response\<close>

text \<open>
  Claim C5. Every response that is not 2xx has a JSON body \<open>{"error": message}\<close> and
  a status among 400, 401, 404, 405 and 500; a start-upload request without \<open>key\<close> is
  answered 400 \<open>{"error": "Missing key"}\<close>. Run on an authorized start-upload request
  without \<open>key\<close>, the flat worker answers 400 with the plain text
  \<open>Invalid or missing key\<close>, and on a \<open>GET\<close> it answers 405 with the plain text
  \<open>Method not allowed\<close>: \<open>checkMethod\<close>, \<open>getUrlParam\<close> and \<open>getUrlParamNumber\<close> throw
  text responses, the rest of the worker JSON ones. The application answers the same
  request the way the claim says (\<open>app_create_missing_key\<close>), and every answer of
  one of its routes that is not 2xx has such a body (\<open>app_error_body\<close>). The statuses
  of both gateways are among those of the claim (\<open>fetch_status\<close>, \<open>app_status\<close>).
\<close>

theorem fetch_plain_text_errors:
  "fetch (flat_request ''POST'' ''/start-upload'' [] None None) test_env =
     (\<lparr>status = 400, headers = [], body = TextBody ''Invalid or missing key''\<rparr>, [])
   \<and> fetch (flat_request ''GET'' ''/start-upload'' [(''key'', ''a.txt'')] None None) test_env =
     (\<lparr>status = 405, headers = [], body = TextBody ''Method not allowed''\<rparr>, [])"
  by (simp add: fetch_def handleRequest_def firstPath_def at_idx_def flat_request_def
      test_env_def case_start_upload_def checkMethod_def getUrlParam_def Response_text_def
      seq_defs)

lemma app_create_missing_key:
  "app plain_framework (anonymous_request ''POST'' ''/uploads/create'' [] None None) test_env =
     (\<lparr>status = 400, headers = [], body = JsonBody (JObj [(''error'', JStr ''Missing key'')])\<rparr>, [])"
  by (simp add: app_post_uploads anonymous_request_def test_env_def post_uploads_create_def
      getQueryString_def onError_def Response_json_def error_obj_def seq_defs)

section \<open>C6: a completion body of the wrong shape\<close>

text \<open>
  Claim C6, as stated: a complete-upload request whose parsed body is not an array of
  objects each having an integer \<open>partNumber\<close> and a string \<open>etag\<close> is answered 400
  \<open>Invalid parts\<close> (\<open>No parts\<close> for the empty array) and makes no call. It fails for a
  part number that is a number but not an integer: the handlers test
  \<open>typeof part.partNumber === 'number'\<close>, so \<open>[{"partNumber": 1.5, "etag": "E1"}]\<close> is
  accepted and passed on to \<open>complete\<close>.
\<close>

theorem complete_upload_fraction_counterexample:
  "\<not> spec_parts (JArr [JObj [(''partNumber'', JNum (Num (3 / 2))), (''etag'', JStr ''E1'')]])
   \<and> fetch (flat_request ''POST'' ''/complete-upload'' [(''key'', ''a.txt''), (''uploadId'', ''U1'')]
        (Some ''[{\"partNumber\":1.5,\"etag\":\"E1\"}]'')
        (Some (JArr [JObj [(''partNumber'', JNum (Num (3 / 2))), (''etag'', JStr ''E1'')]])))
      test_env =
     (Response_json (JObj [(''key'', JStr ''a.txt'')]) 200,
      [ResumeMultipartUpload ''a.txt'' ''U1'',
       Complete \<lparr>mpu_key = ''a.txt'', mpu_uploadId = ''U1''\<rparr>
         [JObj [(''partNumber'', JNum (Num (3 / 2))), (''etag'', JStr ''E1'')]]])
   \<and> app plain_framework (anonymous_request ''POST'' ''/uploads/complete'' [(''key'', ''a.txt''), (''uploadId'', ''U1'')]
        (Some ''[{\"partNumber\":1.5,\"etag\":\"E1\"}]'')
        (Some (JArr [JObj [(''partNumber'', JNum (Num (3 / 2))), (''etag'', JStr ''E1'')]])))
      test_env =
     (Response_json (JObj [(''key'', JStr ''a.txt'')]) 200,
      [ResumeMultipartUpload ''a.txt'' ''U1'',
       Complete \<lparr>mpu_key = ''a.txt'', mpu_uploadId = ''U1''\<rparr>
         [JObj [(''partNumber'', JNum (Num (3 / 2))), (''etag'', JStr ''E1'')]]])"
  by (simp add: fetch_def handleRequest_def firstPath_def at_idx_def flat_request_def
      test_env_def empty_bucket_def case_complete_upload_def checkMethod_def getUrlParam_def
      part_check_def resumeMultipartUpload_def three_halves_not_integer
      app_post_uploads anonymous_request_def post_uploads_complete_def
      getQueryString_def onError_def seq_defs del: is_integer.simps)

text \<open>
  A \<open>null\<close> element reached by the test makes \<open>part.partNumber\<close> throw a \<open>TypeError\<close>,
  which both gateways answer with 500.
\<close>

lemma complete_upload_null_part:
  "fetch (flat_request ''POST'' ''/complete-upload'' [(''key'', ''a.txt''), (''uploadId'', ''U1'')]
        (Some ''[null]'') (Some (JArr [JNull]))) test_env =
     (Response_json (error_obj ''Internal server error'') 500, [])"
  "app plain_framework (anonymous_request ''POST'' ''/uploads/complete'' [(''key'', ''a.txt''), (''uploadId'', ''U1'')]
        (Some ''[null]'') (Some (JArr [JNull]))) test_env =
     (Response_json (error_obj ''Internal Server Error'') 500, [])"
  by (simp_all add: fetch_def handleRequest_def firstPath_def at_idx_def flat_request_def
      test_env_def empty_bucket_def case_complete_upload_def checkMethod_def getUrlParam_def
      part_check_def resumeMultipartUpload_def
      app_post_uploads anonymous_request_def post_uploads_complete_def
      getQueryString_def onError_def seq_defs)

text \<open>
  Claim C6, amended. Of a complete-upload request that gives \<open>key\<close> and \<open>uploadId\<close>: a
  parsed body that is not an array, or that is an array without \<open>null\<close> elements in
  which some element is not an object with a \<open>partNumber\<close> of type number and an \<open>etag\<close>
  of type string, is answered 400 \<open>{"error": "Invalid parts"}\<close>; the empty array is
  answered 400 \<open>{"error": "No parts"}\<close>; in neither case is the backing store called.
  The part number need not be an integer. The body
  \<open>[{"partNumber": "x", "etag": "E1"}]\<close> is answered 400 \<open>{"error": "Invalid parts"}\<close>.
\<close>

theorem complete_upload_invalid_parts:
  assumes "req_json request = Some v"
    and "req_method request = ''POST''"
    and "map_of (req_searchParams request) ''key'' = Some k"
    and "map_of (req_searchParams request) ''uploadId'' = Some u"
  shows "((\<forall>ps. v \<noteq> JArr ps) \<or> (\<exists>ps. v = JArr ps \<and> JNull \<notin> set ps \<and> \<not> list_all typed_part ps) \<longrightarrow>
      (firstPath request = Some ''complete-upload''
        \<and> req_Authorization request = Some a \<and> AUTH_KEY env = Some a \<longrightarrow>
        fetch request env = (Response_json (error_obj ''Invalid parts'') 400, []))
      \<and> (req_pathname request = ''/uploads/complete''
        \<and> BUCKET env \<noteq> None \<and> AUTH_KEY env \<noteq> None \<longrightarrow>
        app fw request env = (Response_json (error_obj ''Invalid parts'') 400, [])))
    \<and> (v = JArr [] \<longrightarrow>
      (firstPath request = Some ''complete-upload''
        \<and> req_Authorization request = Some a \<and> AUTH_KEY env = Some a \<longrightarrow>
        fetch request env = (Response_json (error_obj ''No parts'') 400, []))
      \<and> (req_pathname request = ''/uploads/complete''
        \<and> BUCKET env \<noteq> None \<and> AUTH_KEY env \<noteq> None \<longrightarrow>
        app fw request env = (Response_json (error_obj ''No parts'') 400, [])))"
proof -
  have flat: "fetch request env = (case case_complete_upload request env of
        (Inr r, cs) \<Rightarrow> (r, cs)
      | (Inl (ThrownResponse e), cs) \<Rightarrow> (e, cs)
      | (Inl _, cs) \<Rightarrow> (Response_json (error_obj ''Internal server error'') 500, cs))"
    if "firstPath request = Some ''complete-upload''
        \<and> req_Authorization request = Some a \<and> AUTH_KEY env = Some a"
    using that by (simp add: fetch_def handleRequest_authorized)
  have nested: "app fw request env = onError (post_uploads_complete
        \<lparr>ctx_req = request, ctx_env = env, ctx_param = []\<rparr>)"
    if "req_pathname request = ''/uploads/complete''
        \<and> BUCKET env \<noteq> None \<and> AUTH_KEY env \<noteq> None"
    using that assms(2) by (simp add: app_post_uploads)
  show ?thesis
    using assms
    by (auto simp: flat nested case_complete_upload_parts post_uploads_complete_parts
        every_part_check onError_def try_pure_def return_def throw_def
        split: jsval.splits)
qed

theorem complete_upload_invalid_parts_witness:
  "fetch (flat_request ''POST'' ''/complete-upload'' [(''key'', ''a.txt''), (''uploadId'', ''U1'')]
        (Some ''[{\"partNumber\":\"x\",\"etag\":\"E1\"}]'')
        (Some (JArr [JObj [(''partNumber'', JStr ''x''), (''etag'', JStr ''E1'')]])))
      test_env = (Response_json (error_obj ''Invalid parts'') 400, [])
   \<and> app plain_framework (anonymous_request ''POST'' ''/uploads/complete'' [(''key'', ''a.txt''), (''uploadId'', ''U1'')]
        (Some ''[{\"partNumber\":\"x\",\"etag\":\"E1\"}]'')
        (Some (JArr [JObj [(''partNumber'', JStr ''x''), (''etag'', JStr ''E1'')]])))
      test_env = (Response_json (error_obj ''Invalid parts'') 400, [])
   \<and> fetch (flat_request ''POST'' ''/complete-upload'' [(''key'', ''a.txt''), (''uploadId'', ''U1'')]
        (Some ''{}'') (Some (JObj [])))
      test_env = (Response_json (error_obj ''Invalid parts'') 400, [])"
  using complete_upload_invalid_parts [of
      "flat_request ''POST'' ''/complete-upload'' [(''key'', ''a.txt''), (''uploadId'', ''U1'')]
        (Some ''[{\"partNumber\":\"x\",\"etag\":\"E1\"}]'')
        (Some (JArr [JObj [(''partNumber'', JStr ''x''), (''etag'', JStr ''E1'')]]))"
      "JArr [JObj [(''partNumber'', JStr ''x''), (''etag'', JStr ''E1'')]]"
      "''a.txt''" "''U1''" "''secret''" test_env]
    complete_upload_invalid_parts [of
      "anonymous_request ''POST'' ''/uploads/complete'' [(''key'', ''a.txt''), (''uploadId'', ''U1'')]
        (Some ''[{\"partNumber\":\"x\",\"etag\":\"E1\"}]'')
        (Some (JArr [JObj [(''partNumber'', JStr ''x''), (''etag'', JStr ''E1'')]]))"
      "JArr [JObj [(''partNumber'', JStr ''x''), (''etag'', JStr ''E1'')]]"
      "''a.txt''" "''U1''" _ test_env]
    complete_upload_invalid_parts [of
      "flat_request ''POST'' ''/complete-upload'' [(''key'', ''a.txt''), (''uploadId'', ''U1'')]
        (Some ''{}'') (Some (JObj []))"
      "JObj []" "''a.txt''" "''U1''" "''secret''" test_env]
  by (simp add: flat_request_def anonymous_request_def test_env_def firstPath_def at_idx_def)

section \<open>C7: the part number of an upload-part request\<close>

text \<open>
  Claim C7, as stated: the \<open>partNumber\<close> query parameter must parse as a base-10
  integer; absent or not a base-10 integer, the answer is 400, and otherwise the
  parsed value is forwarded to the upload-part call. It fails for a value that only
  starts like an integer: \<open>parseInt\<close> reads the leading digits and ignores the rest,
  so \<open>12abc\<close>, which is not a base-10 integer, is accepted and forwarded as 12.
\<close>

theorem upload_part_lenient_counterexample:
  "\<not> base10_integer ''12abc''
   \<and> fetch (flat_request ''POST'' ''/upload-part''
        [(''key'', ''a.txt''), (''uploadId'', ''U1''), (''partNumber'', ''12abc'')]
        (Some ''hello'') None) test_env =
     (Response_json (JObj [(''partNumber'', JNum (Num 12)), (''etag'', JStr ''E1'')]) 200,
      [ResumeMultipartUpload ''a.txt'' ''U1'',
       UploadPart \<lparr>mpu_key = ''a.txt'', mpu_uploadId = ''U1''\<rparr> (Num 12) ''hello''])
   \<and> app plain_framework (anonymous_request ''POST'' ''/uploads/upload-part''
        [(''key'', ''a.txt''), (''uploadId'', ''U1''), (''partNumber'', ''12abc'')]
        (Some ''hello'') None) test_env =
     (Response_json (JObj [(''partNumber'', JNum (Num 12)), (''etag'', JStr ''E1'')]) 200,
      [ResumeMultipartUpload ''a.txt'' ''U1'',
       UploadPart \<lparr>mpu_key = ''a.txt'', mpu_uploadId = ''U1''\<rparr> (Num 12) ''hello''])"
  by (simp add: base10_integer_def is_digit_def
      fetch_def handleRequest_def firstPath_def at_idx_def flat_request_def
      test_env_def empty_bucket_def case_upload_part_def checkMethod_def getUrlParam_def
      getUrlParamNumber_cases getQueryNumber_cases parseInt_examples resumeMultipartUpload_def
      app_post_uploads anonymous_request_def post_uploads_upload_part_def
      getQueryString_def onError_def seq_defs)

text \<open>
  Claim C7, amended. Of an upload-part request that reaches the handler: when the
  \<open>partNumber\<close> parameter is absent, or \<open>parseInt(value, 10)\<close> is \<open>NaN\<close>, the answer is
  400 and no call is made; otherwise, the body, \<open>key\<close> and \<open>uploadId\<close> being there,
  the number \<open>parseInt(value, 10)\<close> returns is the part number of the upload-part call.
  (\<open>parseInt\<close> is as the language has it: see \<open>parseInt_NaN_iff\<close>, \<open>parseInt_white\<close>,
  \<open>parseInt_unsigned\<close>, \<open>parseInt_plus\<close>, \<open>parseInt_minus\<close> and \<open>to_Number_exact\<close>.)
\<close>

theorem upload_part_partNumber:
  assumes "req_method request = ''POST''"
  shows "(firstPath request = Some ''upload-part''
        \<and> req_Authorization request = Some a \<and> AUTH_KEY env = Some a
        \<and> (map_of (req_searchParams request) ''partNumber'' = None
           \<or> (\<exists>v. map_of (req_searchParams request) ''partNumber'' = Some v \<and> parseInt v = NaN)) \<longrightarrow>
        status (fst (fetch request env)) = 400 \<and> snd (fetch request env) = [])
    \<and> (req_pathname request = ''/uploads/upload-part''
        \<and> BUCKET env \<noteq> None \<and> AUTH_KEY env \<noteq> None
        \<and> (map_of (req_searchParams request) ''partNumber'' = None
           \<or> (\<exists>v. map_of (req_searchParams request) ''partNumber'' = Some v \<and> parseInt v = NaN)) \<longrightarrow>
        status (fst (app fw request env)) = 400 \<and> snd (app fw request env) = [])
    \<and> (firstPath request = Some ''upload-part''
        \<and> req_Authorization request = Some a \<and> AUTH_KEY env = Some a \<and> BUCKET env \<noteq> None
        \<and> req_body request = Some bytes
        \<and> map_of (req_searchParams request) ''key'' = Some k
        \<and> map_of (req_searchParams request) ''uploadId'' = Some u
        \<and> map_of (req_searchParams request) ''partNumber'' = Some v \<and> parseInt v \<noteq> NaN \<longrightarrow>
        snd (fetch request env) =
          [ResumeMultipartUpload k u,
           UploadPart \<lparr>mpu_key = k, mpu_uploadId = u\<rparr> (parseInt v) bytes])
    \<and> (req_pathname request = ''/uploads/upload-part''
        \<and> BUCKET env \<noteq> None \<and> AUTH_KEY env \<noteq> None
        \<and> req_body request = Some bytes
        \<and> map_of (req_searchParams request) ''key'' = Some k
        \<and> map_of (req_searchParams request) ''uploadId'' = Some u
        \<and> map_of (req_searchParams request) ''partNumber'' = Some v \<and> parseInt v \<noteq> NaN \<longrightarrow>
        snd (app fw request env) =
          [ResumeMultipartUpload k u,
           UploadPart \<lparr>mpu_key = k, mpu_uploadId = u\<rparr> (parseInt v) bytes])"
proof (intro conjI impI)
  assume h: "firstPath request = Some ''upload-part''
        \<and> req_Authorization request = Some a \<and> AUTH_KEY env = Some a
        \<and> (map_of (req_searchParams request) ''partNumber'' = None
           \<or> (\<exists>v. map_of (req_searchParams request) ''partNumber'' = Some v \<and> parseInt v = NaN))"
  with assms show "status (fst (fetch request env)) = 400"
    by (auto simp: fetch_def handleRequest_authorized case_upload_part_def checkMethod_def
        getUrlParam_def getUrlParamNumber_cases seq_defs Response_json_def Response_text_def
        split: option.splits)
  from h assms show "snd (fetch request env) = []"
    by (auto simp: fetch_calls handleRequest_authorized case_upload_part_def checkMethod_def
        getUrlParam_def getUrlParamNumber_cases seq_defs split: option.splits)
next
  assume h: "req_pathname request = ''/uploads/upload-part''
        \<and> BUCKET env \<noteq> None \<and> AUTH_KEY env \<noteq> None
        \<and> (map_of (req_searchParams request) ''partNumber'' = None
           \<or> (\<exists>v. map_of (req_searchParams request) ''partNumber'' = Some v \<and> parseInt v = NaN))"
  with assms show "status (fst (app fw request env)) = 400"
    by (auto simp: app_post_uploads post_uploads_upload_part_def onError_def
        getQueryString_def getQueryNumber_cases seq_defs Response_json_def
        split: option.splits)
  from h assms show "snd (app fw request env) = []"
    by (auto simp: app_post_uploads post_uploads_upload_part_def onError_calls
        getQueryString_def getQueryNumber_cases seq_defs split: option.splits)
next
  assume "firstPath request = Some ''upload-part''
        \<and> req_Authorization request = Some a \<and> AUTH_KEY env = Some a \<and> BUCKET env \<noteq> None
        \<and> req_body request = Some bytes
        \<and> map_of (req_searchParams request) ''key'' = Some k
        \<and> map_of (req_searchParams request) ''uploadId'' = Some u
        \<and> map_of (req_searchParams request) ''partNumber'' = Some v \<and> parseInt v \<noteq> NaN"
  with assms show "snd (fetch request env) =
          [ResumeMultipartUpload k u,
           UploadPart \<lparr>mpu_key = k, mpu_uploadId = u\<rparr> (parseInt v) bytes]"
    by (auto simp: fetch_calls handleRequest_authorized case_upload_part_def checkMethod_def
        getUrlParam_def getUrlParamNumber_cases resumeMultipartUpload_def seq_defs Let_def
        split: sum.splits)
next
  assume "req_pathname request = ''/uploads/upload-part''
        \<and> BUCKET env \<noteq> None \<and> AUTH_KEY env \<noteq> None
        \<and> req_body request = Some bytes
        \<and> map_of (req_searchParams request) ''key'' = Some k
        \<and> map_of (req_searchParams request) ''uploadId'' = Some u
        \<and> map_of (req_searchParams request) ''partNumber'' = Some v \<and> parseInt v \<noteq> NaN"
  with assms show "snd (app fw request env) =
          [ResumeMultipartUpload k u,
           UploadPart \<lparr>mpu_key = k, mpu_uploadId = u\<rparr> (parseInt v) bytes]"
    by (auto simp: app_post_uploads post_uploads_upload_part_def onError_calls
        getQueryString_def getQueryNumber_cases resumeMultipartUpload_def seq_defs Let_def
        split: sum.splits)
qed

theorem upload_part_partNumber_witness:
  "fetch (flat_request ''POST'' ''/upload-part''
        [(''key'', ''a.txt''), (''uploadId'', ''U1'')] (Some ''hello'') None) test_env
     = (Response_text ''Invalid or missing partNumber'' 400, [])
   \<and> app plain_framework (anonymous_request ''POST'' ''/uploads/upload-part''
        [(''key'', ''a.txt''), (''uploadId'', ''U1''), (''partNumber'', ''abc'')]
        (Some ''hello'') None) test_env
     = (Response_json (error_obj ''Invalid partNumber'') 400, [])
   \<and> snd (fetch (flat_request ''POST'' ''/upload-part''
        [(''key'', ''a.txt''), (''uploadId'', ''U1''), (''partNumber'', ''1.5'')]
        (Some ''hello'') None) test_env)
     = [ResumeMultipartUpload ''a.txt'' ''U1'',
        UploadPart \<lparr>mpu_key = ''a.txt'', mpu_uploadId = ''U1''\<rparr> (Num 1) ''hello'']
   \<and> snd (app plain_framework (anonymous_request ''POST'' ''/uploads/upload-part''
        [(''key'', ''a.txt''), (''uploadId'', ''U1''), (''partNumber'', ''-3'')]
        (Some ''hello'') None) test_env)
     = [ResumeMultipartUpload ''a.txt'' ''U1'',
        UploadPart \<lparr>mpu_key = ''a.txt'', mpu_uploadId = ''U1''\<rparr> (Num (- 3)) ''hello'']
   \<and> snd (app plain_framework (anonymous_request ''POST'' ''/uploads/upload-part''
        [(''key'', ''a.txt''), (''uploadId'', ''U1''),
         (''partNumber'', [CHR 0xC2, CHR 0xA0, CHR ''7''])]
        (Some ''hello'') None) test_env)
     = [ResumeMultipartUpload ''a.txt'' ''U1'',
        UploadPart \<lparr>mpu_key = ''a.txt'', mpu_uploadId = ''U1''\<rparr> (Num 7) ''hello'']
   \<and> snd (fetch (flat_request ''POST'' ''/upload-part''
        [(''key'', ''a.txt''), (''uploadId'', ''U1''), (''partNumber'', ''9007199254740993'')]
        (Some ''hello'') None) test_env)
     = [ResumeMultipartUpload ''a.txt'' ''U1'',
        UploadPart \<lparr>mpu_key = ''a.txt'', mpu_uploadId = ''U1''\<rparr>
          (Rounded 9007199254740993) ''hello'']"
proof -
  have "fetch (flat_request ''POST'' ''/upload-part''
        [(''key'', ''a.txt''), (''uploadId'', ''U1'')] (Some ''hello'') None) test_env
     = (Response_text ''Invalid or missing partNumber'' 400, [])"
    using upload_part_partNumber [where request = "flat_request ''POST'' ''/upload-part''
        [(''key'', ''a.txt''), (''uploadId'', ''U1'')] (Some ''hello'') None"
        and a = "''secret''" and env = test_env]
    by (simp add: fetch_def handleRequest_def firstPath_def at_idx_def flat_request_def
        test_env_def case_upload_part_def checkMethod_def getUrlParam_def
        getUrlParamNumber_cases seq_defs)
  moreover have "app plain_framework (anonymous_request ''POST'' ''/uploads/upload-part''
        [(''key'', ''a.txt''), (''uploadId'', ''U1''), (''partNumber'', ''abc'')]
        (Some ''hello'') None) test_env
     = (Response_json (error_obj ''Invalid partNumber'') 400, [])"
    using upload_part_partNumber [where request = "anonymous_request ''POST'' ''/uploads/upload-part''
        [(''key'', ''a.txt''), (''uploadId'', ''U1''), (''partNumber'', ''abc'')]
        (Some ''hello'') None" and env = test_env and fw = plain_framework]
    by (simp add: app_post_uploads anonymous_request_def test_env_def
        post_uploads_upload_part_def getQueryString_def getQueryNumber_cases
        parseInt_examples onError_def seq_defs)
  moreover have "snd (fetch (flat_request ''POST'' ''/upload-part''
        [(''key'', ''a.txt''), (''uploadId'', ''U1''), (''partNumber'', ''1.5'')]
        (Some ''hello'') None) test_env)
     = [ResumeMultipartUpload ''a.txt'' ''U1'',
        UploadPart \<lparr>mpu_key = ''a.txt'', mpu_uploadId = ''U1''\<rparr> (Num 1) ''hello'']"
    using upload_part_partNumber [where request = "flat_request ''POST'' ''/upload-part''
        [(''key'', ''a.txt''), (''uploadId'', ''U1''), (''partNumber'', ''1.5'')]
        (Some ''hello'') None" and a = "''secret''" and env = test_env
        and bytes = "''hello''" and k = "''a.txt''" and u = "''U1''" and v = "''1.5''"]
    by (simp add: flat_request_def test_env_def firstPath_def at_idx_def parseInt_examples)
  moreover have "snd (app plain_framework (anonymous_request ''POST'' ''/uploads/upload-part''
        [(''key'', ''a.txt''), (''uploadId'', ''U1''), (''partNumber'', ''-3'')]
        (Some ''hello'') None) test_env)
     = [ResumeMultipartUpload ''a.txt'' ''U1'',
        UploadPart \<lparr>mpu_key = ''a.txt'', mpu_uploadId = ''U1''\<rparr> (Num (- 3)) ''hello'']"
    using upload_part_partNumber [where request = "anonymous_request ''POST'' ''/uploads/upload-part''
        [(''key'', ''a.txt''), (''uploadId'', ''U1''), (''partNumber'', ''-3'')]
        (Some ''hello'') None" and env = test_env and fw = plain_framework
        and bytes = "''hello''" and k = "''a.txt''" and u = "''U1''" and v = "''-3''"]
    by (simp add: anonymous_request_def test_env_def parseInt_examples)
  moreover have "snd (app plain_framework (anonymous_request ''POST'' ''/uploads/upload-part''
        [(''key'', ''a.txt''), (''uploadId'', ''U1''),
         (''partNumber'', [CHR 0xC2, CHR 0xA0, CHR ''7''])]
        (Some ''hello'') None) test_env)
     = [ResumeMultipartUpload ''a.txt'' ''U1'',
        UploadPart \<lparr>mpu_key = ''a.txt'', mpu_uploadId = ''U1''\<rparr> (Num 7) ''hello'']"
    using upload_part_partNumber [where request = "anonymous_request ''POST'' ''/uploads/upload-part''
        [(''key'', ''a.txt''), (''uploadId'', ''U1''),
         (''partNumber'', [CHR 0xC2, CHR 0xA0, CHR ''7''])]
        (Some ''hello'') None" and env = test_env and fw = plain_framework
        and bytes = "''hello''" and k = "''a.txt''" and u = "''U1''"
        and v = "[CHR 0xC2, CHR 0xA0, CHR ''7'']"]
    by (simp add: anonymous_request_def test_env_def parseInt_examples)
  moreover have "snd (fetch (flat_request ''POST'' ''/upload-part''
        [(''key'', ''a.txt''), (''uploadId'', ''U1''), (''partNumber'', ''9007199254740993'')]
        (Some ''hello'') None) test_env)
     = [ResumeMultipartUpload ''a.txt'' ''U1'',
        UploadPart \<lparr>mpu_key = ''a.txt'', mpu_uploadId = ''U1''\<rparr>
          (Rounded 9007199254740993) ''hello'']"
    using upload_part_partNumber [where request = "flat_request ''POST'' ''/upload-part''
        [(''key'', ''a.txt''), (''uploadId'', ''U1''), (''partNumber'', ''9007199254740993'')]
        (Some ''hello'') None" and a = "''secret''" and env = test_env
        and bytes = "''hello''" and k = "''a.txt''" and u = "''U1''"
        and v = "''9007199254740993''"]
    by (simp add: flat_request_def test_env_def firstPath_def at_idx_def parseInt_examples)
  ultimately show ?thesis by simp
qed

section \<open>C8: delete\<close>

text \<open>
  The route \<open>DELETE /objects/:key\<close> of the application: the only call is \<open>delete\<close>
  with the key \<open>c.req.param\<close> gives, with no \<open>get\<close> or \<open>head\<close> before it; the answer
  is 204 without a body when that call returns and 500 when it rejects, never 404.
\<close>

lemma objects_key_path:
  "seg \<noteq> [] \<Longrightarrow> CHR ''/'' \<notin> set seg \<Longrightarrow>
   objects_key (split CHR ''/'' (''/objects/'' @ seg)) = Some seg"
  by (simp add: split_no_separator)

lemma app_delete:
  assumes "req_method request = ''DELETE''"
    and "getPath fw request = ''/objects/'' @ seg"
    and "seg \<noteq> []" and "CHR ''/'' \<notin> set seg"
    and "BUCKET env = Some b" and "AUTH_KEY env \<noteq> None"
    and "key = getDecodedParam fw seg"
  shows "snd (app fw request env) = [Delete key]
    \<and> (delete b key = Inr () \<longrightarrow>
        fst (app fw request env) = \<lparr>status = 204, headers = [], body = NoBody\<rparr>)
    \<and> (\<forall>e. delete b key = Inl e \<longrightarrow>
        fst (app fw request env) = Response_json (error_obj ''Internal Server Error'') 500)
    \<and> status (fst (app fw request env)) \<noteq> 404"
proof -
  from assms(3,4) have k: "objects_key (split CHR ''/'' (''/objects/'' @ seg)) = Some seg"
    by (rule objects_key_path)
  from assms(3) have "''/objects/'' @ seg \<noteq> ''/objects''" by simp
  with k assms(7) have "router_match fw ''DELETE'' (''/objects/'' @ seg)
      = Some (delete_objects_key, [(''key'', key)])"
    by (simp add: router_match_def)
  with assms have run: "app fw request env = onError (delete_objects_key
      \<lparr>ctx_req = request, ctx_env = env, ctx_param = [(''key'', key)]\<rparr>)"
    by (simp add: app_not_HEAD dispatch_route)
  show ?thesis
    using assms(5)
    by (cases "delete b key")
      (simp_all add: run delete_objects_key_def getPathString_def onError_def seq_defs
        Response_json_def)
qed

lemma app_delete_missing_key:
  "app fw (anonymous_request ''DELETE'' ''/objects/missing.txt'' [] None None) test_env
     = (\<lparr>status = 204, headers = [], body = NoBody\<rparr>, [Delete ''missing.txt''])"
  "get empty_bucket ''missing.txt'' = Inr None"
  by (simp_all add: app_def dispatch_def middleware_def router_match_def anonymous_request_def
      getPath_def getDecodedParam_def
      test_env_def empty_bucket_def delete_objects_key_def getPathString_def onError_def
      seq_defs)

text \<open>The flat worker has no arm for the path \<open>objects\<close>.\<close>

lemma fetch_objects_not_found:
  "req_Authorization request = Some a \<Longrightarrow> AUTH_KEY env = Some a \<Longrightarrow>
   firstPath request = Some ''objects'' \<Longrightarrow>
   fetch request env = (Response_json (error_obj ''Not found'') 404, [])"
  by (simp add: fetch_def handleRequest_authorized throw_def)


section \<open>C9: the parts are forwarded as given\<close>

text \<open>
  Claim C9. A parts array that passes the shape validation of complete-upload is
  forwarded to the \<open>complete\<close> call of the backing store as it is, element for element
  in the given order: nothing is sorted, nothing is dropped and no part number is
  tested for being positive. The calls are the resume of the session and then
  \<open>complete\<close> with the very list of the body.
\<close>

theorem complete_upload_forwards_parts:
  assumes "req_json request = Some (JArr parts)"
    and "every part_check parts = Inr True"
    and "parts \<noteq> []"
    and "req_method request = ''POST''"
    and "map_of (req_searchParams request) ''key'' = Some k"
    and "map_of (req_searchParams request) ''uploadId'' = Some u"
    and "BUCKET env \<noteq> None"
  shows "(firstPath request = Some ''complete-upload''
        \<and> req_Authorization request = Some a \<and> AUTH_KEY env = Some a \<longrightarrow>
        snd (fetch request env) =
          [ResumeMultipartUpload k u, Complete \<lparr>mpu_key = k, mpu_uploadId = u\<rparr> parts])
    \<and> (req_pathname request = ''/uploads/complete'' \<and> AUTH_KEY env \<noteq> None \<longrightarrow>
        snd (app fw request env) =
          [ResumeMultipartUpload k u, Complete \<lparr>mpu_key = k, mpu_uploadId = u\<rparr> parts])"
  using assms
  by (auto simp: fetch_calls handleRequest_authorized case_complete_upload_parts
      app_post_uploads onError_calls post_uploads_complete_parts
      resumeMultipartUpload_def seq_defs split: sum.splits)

theorem complete_upload_forwards_parts_witness:
  "snd (fetch (flat_request ''POST'' ''/complete-upload''
        [(''key'', ''a.txt''), (''uploadId'', ''U1'')]
          (Some unordered_parts_text) (Some (JArr unordered_parts)))
      test_env) =
     [ResumeMultipartUpload ''a.txt'' ''U1'',
      Complete \<lparr>mpu_key = ''a.txt'', mpu_uploadId = ''U1''\<rparr> unordered_parts]
   \<and> snd (app plain_framework (anonymous_request ''POST'' ''/uploads/complete''
        [(''key'', ''a.txt''), (''uploadId'', ''U1'')]
          (Some unordered_parts_text) (Some (JArr unordered_parts)))
      test_env) =
     [ResumeMultipartUpload ''a.txt'' ''U1'',
      Complete \<lparr>mpu_key = ''a.txt'', mpu_uploadId = ''U1''\<rparr> unordered_parts]
   \<and> every part_check unordered_parts = Inr True"
proof -
  have valid: "every part_check unordered_parts = Inr True"
    by (simp add: unordered_parts_def part_check_def)
  have nonempty: "unordered_parts \<noteq> []"
    by (simp add: unordered_parts_def)
  show ?thesis
    using valid
      complete_upload_forwards_parts [of
        "flat_request ''POST'' ''/complete-upload''
          [(''key'', ''a.txt''), (''uploadId'', ''U1'')]
          (Some unordered_parts_text) (Some (JArr unordered_parts))"
        unordered_parts "''a.txt''" "''U1''" test_env "''secret''", OF _ valid nonempty]
      complete_upload_forwards_parts [of
        "anonymous_request ''POST'' ''/uploads/complete''
          [(''key'', ''a.txt''), (''uploadId'', ''U1'')]
          (Some unordered_parts_text) (Some (JArr unordered_parts))"
        unordered_parts "''a.txt''" "''U1''" test_env, OF _ valid nonempty]
    by (simp add: flat_request_def anonymous_request_def test_env_def firstPath_def at_idx_def)
qed

end
